theory Spec2Isabelle
  imports Main
begin

section \<open>Errors\<close>

text \<open>
  A Go \<^verbatim>\<open>error\<close> that is not nil. The reconciler tells four sorts of error apart:
  a gRPC status error (the topology client returns these), a typed error of
  \<^verbatim>\<open>onos-lib-go/pkg/errors\<close> (what \<^verbatim>\<open>errors.FromStatus\<close> builds), a Kubernetes API
  status error (the resource store returns these) and any other error.
  A nil error is \<open>None\<close> of \<open>go_error option\<close>.
  A gRPC status error never carries the code OK (\<^verbatim>\<open>status.Err\<close> is nil for OK), so the
  type of codes has no OK.
  The functions of this section belong to libraries that the reconciler imports
  (\<^verbatim>\<open>google.golang.org/grpc/status\<close>, \<^verbatim>\<open>onos-lib-go/pkg/errors\<close>,
  \<^verbatim>\<open>k8s.io/apimachinery/pkg/api/errors\<close>); they follow the documented behaviour of
  those libraries.
\<close>

datatype grpc_code =
    codes_Canceled | codes_Unknown | codes_InvalidArgument | codes_DeadlineExceeded
  | codes_NotFound | codes_AlreadyExists | codes_PermissionDenied
  | codes_ResourceExhausted | codes_FailedPrecondition | codes_Aborted
  | codes_OutOfRange | codes_Unimplemented | codes_Internal | codes_Unavailable
  | codes_DataLoss | codes_Unauthenticated

datatype errors_Type =
    errors_Unknown | errors_Canceled | errors_NotFound | errors_AlreadyExists
  | errors_Unauthorized | errors_Forbidden | errors_Conflict | errors_Invalid
  | errors_Unavailable | errors_NotSupported | errors_Timeout | errors_Internal

datatype StatusReason =
    StatusReasonUnknown | StatusReasonNotFound | StatusReasonAlreadyExists
  | StatusReasonConflict | StatusReasonUnauthorized | StatusReasonForbidden
  | StatusReasonInvalid | StatusReasonTimeout | StatusReasonServerTimeout
  | StatusReasonInternalError | StatusReasonServiceUnavailable

datatype go_error =
    PlainError string
  | StatusError grpc_code string
  | TypedError errors_Type string
  | APIStatusError StatusReason string

type_synonym grpc_status = "grpc_code \<times> string"

text \<open>\<^verbatim>\<open>status.FromError(err)\<close> for a non-nil error: the status and \<^verbatim>\<open>ok = true\<close> when the
  error is a gRPC status error, \<^verbatim>\<open>ok = false\<close> (\<open>None\<close>) otherwise.\<close>

fun status_FromError :: "go_error \<Rightarrow> grpc_status option" where
  "status_FromError (StatusError c m) = Some (c, m)"
| "status_FromError _ = None"

text \<open>\<^verbatim>\<open>errors.FromStatus(stat)\<close>: the typed error of a gRPC status, by its code.\<close>

fun errors_FromStatus :: "grpc_status \<Rightarrow> go_error" where
  "errors_FromStatus (codes_Unknown, m) = TypedError errors_Unknown m"
| "errors_FromStatus (codes_Canceled, m) = TypedError errors_Canceled m"
| "errors_FromStatus (codes_NotFound, m) = TypedError errors_NotFound m"
| "errors_FromStatus (codes_AlreadyExists, m) = TypedError errors_AlreadyExists m"
| "errors_FromStatus (codes_Unauthenticated, m) = TypedError errors_Unauthorized m"
| "errors_FromStatus (codes_PermissionDenied, m) = TypedError errors_Forbidden m"
| "errors_FromStatus (codes_FailedPrecondition, m) = TypedError errors_Conflict m"
| "errors_FromStatus (codes_InvalidArgument, m) = TypedError errors_Invalid m"
| "errors_FromStatus (codes_Unavailable, m) = TypedError errors_Unavailable m"
| "errors_FromStatus (codes_Unimplemented, m) = TypedError errors_NotSupported m"
| "errors_FromStatus (codes_DeadlineExceeded, m) = TypedError errors_Timeout m"
| "errors_FromStatus (codes_Internal, m) = TypedError errors_Internal m"
| "errors_FromStatus (_, m) = TypedError errors_Unknown m"

fun errors_IsNotFound :: "go_error \<Rightarrow> bool" where
  "errors_IsNotFound (TypedError t m) = (t = errors_NotFound)"
| "errors_IsNotFound _ = False"

fun errors_IsAlreadyExists :: "go_error \<Rightarrow> bool" where
  "errors_IsAlreadyExists (TypedError t m) = (t = errors_AlreadyExists)"
| "errors_IsAlreadyExists _ = False"

text \<open>\<^verbatim>\<open>k8serrors.IsNotFound(err)\<close>: an API status error whose reason is NotFound.\<close>

fun k8serrors_IsNotFound :: "go_error \<Rightarrow> bool" where
  "k8serrors_IsNotFound (APIStatusError r m) = (r = StatusReasonNotFound)"
| "k8serrors_IsNotFound _ = False"

section \<open>Data model\<close>

type_synonym attributes = "(string \<times> string) list"

text \<open>The fields of \<^verbatim>\<open>v1beta1.Kind\<close> that the reconciler reads or writes:
  \<^verbatim>\<open>Name\<close>, \<^verbatim>\<open>Namespace\<close>, \<^verbatim>\<open>DeletionTimestamp\<close> (a pointer, nil is \<open>None\<close>),
  \<^verbatim>\<open>Finalizers\<close> and \<^verbatim>\<open>Spec.Attributes\<close>.\<close>

record Kind =
  Name :: string
  Namespace :: string
  DeletionTimestamp :: "nat option"
  Finalizers :: "string list"
  Spec_Attributes :: attributes

record NamespacedName =
  nn_Namespace :: string
  nn_Name :: string

datatype Object_Type = Object_UNSPECIFIED | Object_ENTITY | Object_RELATION | Object_KIND

record topo_Kind =
  Kind_Name :: string
  Kind_Attributes :: attributes

datatype Object_Obj = Object_Kind topo_Kind

record Object =
  ID :: string
  Type :: Object_Type
  Obj :: Object_Obj
  Attributes :: attributes

definition topoService :: string where
  "topoService = ''onos-topo''"

definition topoFinalizer :: string where
  "topoFinalizer = ''topo''"

text \<open>\<^verbatim>\<open>(reconcile.Result{}, nil)\<close> is \<open>Done\<close>; \<^verbatim>\<open>(reconcile.Result{}, err)\<close> with a
  non-nil error is \<open>Requeue err\<close>. The reconciler returns no other result.\<close>

datatype Outcome = Done | Requeue go_error

section \<open>Finalizer helpers\<close>

text \<open>Modelled from the spec: the helpers \<^verbatim>\<open>k8s.HasFinalizer\<close>, \<^verbatim>\<open>k8s.AddFinalizer\<close> and
  \<^verbatim>\<open>k8s.RemoveFinalizer\<close> of package \<^verbatim>\<open>pkg/controller/util/k8s\<close> are not among the source
  files. The spec (4.2): a set-membership check, an idempotent insert (no-op if already
  present) and an idempotent delete (no-op if absent), with no I/O and no error.\<close>

definition HasFinalizer :: "Kind \<Rightarrow> string \<Rightarrow> bool" where
  "HasFinalizer kind token = (token \<in> set (Finalizers kind))"

definition AddFinalizer :: "Kind \<Rightarrow> string \<Rightarrow> Kind" where
  "AddFinalizer kind token =
     (if token \<in> set (Finalizers kind) then kind
      else kind\<lparr>Finalizers := Finalizers kind @ [token]\<rparr>)"

definition RemoveFinalizer :: "Kind \<Rightarrow> string \<Rightarrow> Kind" where
  "RemoveFinalizer kind token =
     kind\<lparr>Finalizers := filter (\<lambda>f. f \<noteq> token) (Finalizers kind)\<rparr>"

section \<open>Collaborators and effects\<close>

text \<open>
  The resource store (\<^verbatim>\<open>r.client\<close>), the connection helper \<^verbatim>\<open>grpc.ConnectService\<close>
  (package \<^verbatim>\<open>pkg/controller/util/grpc\<close>, not among the source files) and the topology
  client are collaborators outside the reconciler. They are parameters: each call takes
  the state \<open>'w\<close> of the outside world and returns its answer and the new state. Nothing
  is assumed about them. The connection handle is not modelled: the topology calls act
  on the world directly, and \<^verbatim>\<open>conn.Close\<close>, deferred in the source, runs last on every
  path that has connected. \<^verbatim>\<open>client.Update\<close> is taken to leave the name, the namespace
  and the finalizers of the local copy as they are. The answers of \<^verbatim>\<open>topo.Get\<close>, \<^verbatim>\<open>topo.Create\<close>
  and \<^verbatim>\<open>topo.Delete\<close> are their errors only: the reconciler discards the responses.
\<close>

record 'w collaborators =
  client_Get :: "NamespacedName \<Rightarrow> 'w \<Rightarrow> (go_error + Kind) \<times> 'w"
  client_Update :: "Kind \<Rightarrow> 'w \<Rightarrow> go_error option \<times> 'w"
  ConnectService :: "string \<Rightarrow> string \<Rightarrow> 'w \<Rightarrow> go_error option \<times> 'w"
  conn_Close :: "'w \<Rightarrow> 'w"
  topo_Get :: "string \<Rightarrow> 'w \<Rightarrow> go_error option \<times> 'w"
  topo_Create :: "Object \<Rightarrow> 'w \<Rightarrow> go_error option \<times> 'w"
  topo_Delete :: "string \<Rightarrow> 'w \<Rightarrow> go_error option \<times> 'w"

text \<open>Every call to a collaborator is recorded, with its argument and its answer, in
  the order in which the reconciler makes it.\<close>

datatype event =
    StoreGet NamespacedName "go_error + Kind"
  | StoreUpdate Kind "go_error option"
  | Connect string string "go_error option"
  | ConnClose
  | RemoteGet string "go_error option"
  | RemoteCreate Object "go_error option"
  | RemoteDelete string "go_error option"

record 'w state =
  world :: 'w
  trace :: "event list"

definition do_client_Get ::
  "'w collaborators \<Rightarrow> NamespacedName \<Rightarrow> 'w state \<Rightarrow> (go_error + Kind) \<times> 'w state" where
  "do_client_Get c n s =
     (case client_Get c n (world s) of
        (r, w') \<Rightarrow> (r, \<lparr>world = w', trace = trace s @ [StoreGet n r]\<rparr>))"

definition do_client_Update ::
  "'w collaborators \<Rightarrow> Kind \<Rightarrow> 'w state \<Rightarrow> go_error option \<times> 'w state" where
  "do_client_Update c kind s =
     (case client_Update c kind (world s) of
        (r, w') \<Rightarrow> (r, \<lparr>world = w', trace = trace s @ [StoreUpdate kind r]\<rparr>))"

definition do_ConnectService ::
  "'w collaborators \<Rightarrow> string \<Rightarrow> string \<Rightarrow> 'w state \<Rightarrow> go_error option \<times> 'w state" where
  "do_ConnectService c ns svc s =
     (case ConnectService c ns svc (world s) of
        (r, w') \<Rightarrow> (r, \<lparr>world = w', trace = trace s @ [Connect ns svc r]\<rparr>))"

definition do_conn_Close :: "'w collaborators \<Rightarrow> 'w state \<Rightarrow> 'w state" where
  "do_conn_Close c s = \<lparr>world = conn_Close c (world s), trace = trace s @ [ConnClose]\<rparr>"

definition do_topo_Get ::
  "'w collaborators \<Rightarrow> string \<Rightarrow> 'w state \<Rightarrow> go_error option \<times> 'w state" where
  "do_topo_Get c i s =
     (case topo_Get c i (world s) of
        (r, w') \<Rightarrow> (r, \<lparr>world = w', trace = trace s @ [RemoteGet i r]\<rparr>))"

definition do_topo_Create ::
  "'w collaborators \<Rightarrow> Object \<Rightarrow> 'w state \<Rightarrow> go_error option \<times> 'w state" where
  "do_topo_Create c obj s =
     (case topo_Create c obj (world s) of
        (r, w') \<Rightarrow> (r, \<lparr>world = w', trace = trace s @ [RemoteCreate obj r]\<rparr>))"

definition do_topo_Delete ::
  "'w collaborators \<Rightarrow> string \<Rightarrow> 'w state \<Rightarrow> go_error option \<times> 'w state" where
  "do_topo_Delete c i s =
     (case topo_Delete c i (world s) of
        (r, w') \<Rightarrow> (r, \<lparr>world = w', trace = trace s @ [RemoteDelete i r]\<rparr>))"

section \<open>The reconciler\<close>

text \<open>\<^verbatim>\<open>kindExists\<close> returns the pair \<^verbatim>\<open>(bool, error)\<close> of the source.\<close>

definition kindExists ::
  "'w collaborators \<Rightarrow> Kind \<Rightarrow> 'w state \<Rightarrow> (bool \<times> go_error option) \<times> 'w state" where
  "kindExists c kind s =
     (case do_topo_Get c (Name kind) s of
        (None, s1) \<Rightarrow> ((True, None), s1)
      | (Some err, s1) \<Rightarrow>
          (case status_FromError err of
             None \<Rightarrow> ((False, Some err), s1)
           | Some stat \<Rightarrow>
               (let err' = errors_FromStatus stat in
                if \<not> errors_IsNotFound err' then ((False, Some err'), s1)
                else ((False, None), s1))))"

definition CreateRequest :: "Kind \<Rightarrow> Object" where
  "CreateRequest kind =
     \<lparr>ID = Name kind,
      Type = Object_KIND,
      Obj = Object_Kind \<lparr>Kind_Name = Name kind, Kind_Attributes = Spec_Attributes kind\<rparr>,
      Attributes = Spec_Attributes kind\<rparr>"

definition createKind ::
  "'w collaborators \<Rightarrow> Kind \<Rightarrow> 'w state \<Rightarrow> go_error option \<times> 'w state" where
  "createKind c kind s =
     (case do_topo_Create c (CreateRequest kind) s of
        (None, s1) \<Rightarrow> (None, s1)
      | (Some err, s1) \<Rightarrow>
          (case status_FromError err of
             None \<Rightarrow> (Some err, s1)
           | Some stat \<Rightarrow>
               (let err' = errors_FromStatus stat in
                if \<not> errors_IsAlreadyExists err' then (Some err', s1)
                else (None, s1))))"

definition deleteKind ::
  "'w collaborators \<Rightarrow> Kind \<Rightarrow> 'w state \<Rightarrow> go_error option \<times> 'w state" where
  "deleteKind c kind s =
     (case do_topo_Delete c (Name kind) s of
        (None, s1) \<Rightarrow> (None, s1)
      | (Some err, s1) \<Rightarrow>
          (case status_FromError err of
             None \<Rightarrow> (Some err, s1)
           | Some stat \<Rightarrow>
               (let err' = errors_FromStatus stat in
                if \<not> errors_IsNotFound err' then (Some err', s1)
                else (None, s1))))"

text \<open>The first block of \<^verbatim>\<open>reconcileCreate\<close>: the finalizer is added to the fetched copy
  and the copy is persisted, only when the token is missing. The result is the error of
  the update (nil when there was no update) and the copy as it is afterwards.\<close>

definition ensureFinalizer ::
  "'w collaborators \<Rightarrow> Kind \<Rightarrow> 'w state \<Rightarrow> (go_error option \<times> Kind) \<times> 'w state" where
  "ensureFinalizer c kind s =
     (if \<not> HasFinalizer kind topoFinalizer then
        (let kind' = AddFinalizer kind topoFinalizer in
         case do_client_Update c kind' s of (r, s1) \<Rightarrow> ((r, kind'), s1))
      else ((None, kind), s))"

definition reconcileCreate ::
  "'w collaborators \<Rightarrow> Kind \<Rightarrow> 'w state \<Rightarrow> Outcome \<times> 'w state" where
  "reconcileCreate c kind s =
     (case ensureFinalizer c kind s of
        ((Some err, kind1), s1) \<Rightarrow> (Requeue err, s1)
      | ((None, kind1), s1) \<Rightarrow>
          (case do_ConnectService c (Namespace kind1) topoService s1 of
             (Some err, s2) \<Rightarrow> (Requeue err, s2)
           | (None, s2) \<Rightarrow>
               (case (case kindExists c kind1 s2 of
                        ((exists, Some err), s3) \<Rightarrow> (Requeue err, s3)
                      | ((exists, None), s3) \<Rightarrow>
                          if exists then (Done, s3)
                          else (case createKind c kind1 s3 of
                                  (Some err, s4) \<Rightarrow> (Requeue err, s4)
                                | (None, s4) \<Rightarrow> (Done, s4))) of
                  (out, s5) \<Rightarrow> (out, do_conn_Close c s5))))"

definition reconcileDelete ::
  "'w collaborators \<Rightarrow> Kind \<Rightarrow> 'w state \<Rightarrow> Outcome \<times> 'w state" where
  "reconcileDelete c kind s =
     (if \<not> HasFinalizer kind topoFinalizer then (Done, s)
      else
        (case do_ConnectService c (Namespace kind) topoService s of
           (Some err, s1) \<Rightarrow> (Requeue err, s1)
         | (None, s1) \<Rightarrow>
             (case (case deleteKind c kind s1 of
                      (Some err, s2) \<Rightarrow> (Requeue err, s2)
                    | (None, s2) \<Rightarrow>
                        (case do_client_Update c (RemoveFinalizer kind topoFinalizer) s2 of
                           (Some err, s3) \<Rightarrow> (Requeue err, s3)
                         | (None, s3) \<Rightarrow> (Done, s3))) of
                (out, s4) \<Rightarrow> (out, do_conn_Close c s4))))"

definition Reconcile ::
  "'w collaborators \<Rightarrow> NamespacedName \<Rightarrow> 'w state \<Rightarrow> Outcome \<times> 'w state" where
  "Reconcile c request s =
     (case do_client_Get c request s of
        (Inl err, s1) \<Rightarrow>
          (if k8serrors_IsNotFound err then (Done, s1) else (Requeue err, s1))
      | (Inr kind, s1) \<Rightarrow>
          (if DeletionTimestamp kind = None then reconcileCreate c kind s1
           else reconcileDelete c kind s1))"

text \<open>One invocation from outside: the trace starts empty, and the result is the
  outcome, the calls made and the world afterwards.\<close>

definition run_Reconcile ::
  "'w collaborators \<Rightarrow> NamespacedName \<Rightarrow> 'w \<Rightarrow> Outcome \<times> event list \<times> 'w" where
  "run_Reconcile c request w =
     (case Reconcile c request \<lparr>world = w, trace = []\<rparr> of
        (out, s) \<Rightarrow> (out, trace s, world s))"

section \<open>A reference environment\<close>

text \<open>
  A reliable cluster to run the reconciler in: a resource store keyed by namespace and
  name, and a topology registry keyed by the identifier of its objects (spec, section 2:
  a catalog keyed by a unique string identifier, whose calls fail with not-found and
  already-exists). The registry is a list of objects, so that a second entry under one
  identifier would be visible. Connections always succeed here.
\<close>

record cluster =
  store :: "NamespacedName \<rightharpoonup> Kind"
  registry :: "Object list"

definition key_of :: "Kind \<Rightarrow> NamespacedName" where
  "key_of kind = \<lparr>nn_Namespace = Namespace kind, nn_Name = Name kind\<rparr>"

definition entries :: "string \<Rightarrow> Object list \<Rightarrow> Object list" where
  "entries i reg = filter (\<lambda>obj. ID obj = i) reg"

definition cluster_Get :: "NamespacedName \<Rightarrow> cluster \<Rightarrow> (go_error + Kind) \<times> cluster" where
  "cluster_Get n w =
     (case store w n of
        None \<Rightarrow> (Inl (APIStatusError StatusReasonNotFound ''not found''), w)
      | Some kind \<Rightarrow> (Inr kind, w))"

definition cluster_Update :: "Kind \<Rightarrow> cluster \<Rightarrow> go_error option \<times> cluster" where
  "cluster_Update kind w =
     (case store w (key_of kind) of
        None \<Rightarrow> (Some (APIStatusError StatusReasonNotFound ''not found''), w)
      | Some old \<Rightarrow> (None, w\<lparr>store := (store w)(key_of kind \<mapsto> kind)\<rparr>))"

definition registry_Get :: "string \<Rightarrow> cluster \<Rightarrow> go_error option \<times> cluster" where
  "registry_Get i w =
     (if entries i (registry w) = [] then (Some (StatusError codes_NotFound ''not found''), w)
      else (None, w))"

definition registry_Create :: "Object \<Rightarrow> cluster \<Rightarrow> go_error option \<times> cluster" where
  "registry_Create obj w =
     (if entries (ID obj) (registry w) = [] then (None, w\<lparr>registry := registry w @ [obj]\<rparr>)
      else (Some (StatusError codes_AlreadyExists ''already exists''), w))"

definition registry_Delete :: "string \<Rightarrow> cluster \<Rightarrow> go_error option \<times> cluster" where
  "registry_Delete i w =
     (if entries i (registry w) = [] then (Some (StatusError codes_NotFound ''not found''), w)
      else (None, w\<lparr>registry := filter (\<lambda>obj. ID obj \<noteq> i) (registry w)\<rparr>))"

definition reliable :: "cluster collaborators" where
  "reliable =
     \<lparr>client_Get = cluster_Get,
      client_Update = cluster_Update,
      ConnectService = (\<lambda>ns svc w. (None, w)),
      conn_Close = (\<lambda>w. w),
      topo_Get = registry_Get,
      topo_Create = registry_Create,
      topo_Delete = registry_Delete\<rparr>"

text \<open>\<open>N\<close> invocations in a row on one identity, nothing else touching the cluster in
  between; the outcomes are collected in order.\<close>

fun reconcile_times ::
  "'w collaborators \<Rightarrow> NamespacedName \<Rightarrow> nat \<Rightarrow> 'w \<Rightarrow> Outcome list \<times> 'w" where
  "reconcile_times c request 0 w = ([], w)"
| "reconcile_times c request (Suc n) w =
     (case run_Reconcile c request w of
        (out, tr, w1) \<Rightarrow>
          (case reconcile_times c request n w1 of (outs, w2) \<Rightarrow> (out # outs, w2)))"

text \<open>The resources and the clusters of the examples.\<close>

definition r1 :: Kind where
  "r1 = \<lparr>Name = ''r1'', Namespace = ''default'', DeletionTimestamp = None,
         Finalizers = [], Spec_Attributes = [(''vendor'', ''acme'')]\<rparr>"

definition r1_req :: NamespacedName where
  "r1_req = \<lparr>nn_Namespace = ''default'', nn_Name = ''r1''\<rparr>"

definition cluster_of :: "Kind \<Rightarrow> Object list \<Rightarrow> cluster" where
  "cluster_of kind reg = \<lparr>store = [key_of kind \<mapsto> kind], registry = reg\<rparr>"

definition unavailable :: go_error where
  "unavailable = StatusError codes_Unavailable ''connection refused''"

section \<open>Classification of the calls\<close>

definition is_finalizer_mutation :: "event \<Rightarrow> bool" where
  "is_finalizer_mutation ev = (case ev of StoreUpdate kind r \<Rightarrow> True | _ \<Rightarrow> False)"

definition is_remote_mutation :: "event \<Rightarrow> bool" where
  "is_remote_mutation ev =
     (case ev of RemoteCreate obj r \<Rightarrow> True | RemoteDelete i r \<Rightarrow> True | _ \<Rightarrow> False)"

definition is_remote_create :: "event \<Rightarrow> bool" where
  "is_remote_create ev = (case ev of RemoteCreate obj r \<Rightarrow> True | _ \<Rightarrow> False)"

text \<open>The error kind of a raw client error: a gRPC status error with the given code.\<close>

definition is_status :: "grpc_code \<Rightarrow> go_error \<Rightarrow> bool" where
  "is_status code err = (case err of StatusError c m \<Rightarrow> c = code | _ \<Rightarrow> False)"

text \<open>What the three helpers hand to their caller for a raw client error that they do
  not absorb: the error itself when it is no gRPC status error, its typed form otherwise.\<close>

definition surfaced :: "go_error \<Rightarrow> go_error" where
  "surfaced err =
     (case status_FromError err of None \<Rightarrow> err | Some stat \<Rightarrow> errors_FromStatus stat)"

text \<open>A remote delete of the given identifier that has succeeded or has answered
  not-found.\<close>

definition delete_settled :: "string \<Rightarrow> event \<Rightarrow> bool" where
  "delete_settled i ev =
     (case ev of
        RemoteDelete j r \<Rightarrow>
          j = i \<and> (case r of None \<Rightarrow> True | Some err \<Rightarrow> is_status codes_NotFound err)
      | _ \<Rightarrow> False)"

section \<open>The paths of an invocation\<close>

text \<open>An answer that a helper takes for success: no error, or the error kind that the
  helper absorbs.\<close>

definition settled :: "grpc_code \<Rightarrow> go_error option \<Rightarrow> bool" where
  "settled code r = (case r of None \<Rightarrow> True | Some err \<Rightarrow> is_status code err)"

text \<open>The outcome of a last call: \<open>Done\<close> when it succeeded, \<open>Requeue\<close> with its error
  otherwise.\<close>

definition outcome_of :: "go_error option \<Rightarrow> Outcome" where
  "outcome_of r = (case r of None \<Rightarrow> Done | Some err \<Rightarrow> Requeue err)"

text \<open>
  The calls that one invocation can make after the fetch, path by path, each with its
  outcome. The lemmas below show that every run of the reconciler follows one of these
  paths; the properties of the traces are then read off the paths.
  \<open>remote_create_path\<close> is \<^verbatim>\<open>reconcileCreate\<close> from the connection on, \<open>create_path\<close> all
  of \<^verbatim>\<open>reconcileCreate\<close>, \<open>delete_path\<close> is \<^verbatim>\<open>reconcileDelete\<close> and \<open>reconcile_path\<close>
  is \<^verbatim>\<open>Reconcile\<close> after its fetch.
\<close>

inductive remote_create_path :: "Kind \<Rightarrow> Outcome \<Rightarrow> event list \<Rightarrow> bool" for kind where
  rc_connect:
    "remote_create_path kind (Requeue e) [Connect (Namespace kind) topoService (Some e)]"
| rc_get_error:
    "\<not> is_status codes_NotFound err \<Longrightarrow>
     remote_create_path kind (Requeue (surfaced err))
       [Connect (Namespace kind) topoService None, RemoteGet (Name kind) (Some err), ConnClose]"
| rc_exists:
    "remote_create_path kind Done
       [Connect (Namespace kind) topoService None, RemoteGet (Name kind) None, ConnClose]"
| rc_create_error:
    "is_status codes_NotFound err \<Longrightarrow> \<not> is_status codes_AlreadyExists err' \<Longrightarrow>
     remote_create_path kind (Requeue (surfaced err'))
       [Connect (Namespace kind) topoService None, RemoteGet (Name kind) (Some err),
        RemoteCreate (CreateRequest kind) (Some err'), ConnClose]"
| rc_created:
    "is_status codes_NotFound err \<Longrightarrow> settled codes_AlreadyExists r \<Longrightarrow>
     remote_create_path kind Done
       [Connect (Namespace kind) topoService None, RemoteGet (Name kind) (Some err),
        RemoteCreate (CreateRequest kind) r, ConnClose]"

inductive create_path :: "Kind \<Rightarrow> Outcome \<Rightarrow> event list \<Rightarrow> bool" for kind where
  cr_finalized:
    "HasFinalizer kind topoFinalizer \<Longrightarrow> remote_create_path kind out evs \<Longrightarrow>
     create_path kind out evs"
| cr_update_error:
    "\<not> HasFinalizer kind topoFinalizer \<Longrightarrow>
     create_path kind (Requeue e) [StoreUpdate (AddFinalizer kind topoFinalizer) (Some e)]"
| cr_added:
    "\<not> HasFinalizer kind topoFinalizer \<Longrightarrow>
     remote_create_path (AddFinalizer kind topoFinalizer) out evs \<Longrightarrow>
     create_path kind out (StoreUpdate (AddFinalizer kind topoFinalizer) None # evs)"

inductive delete_path :: "Kind \<Rightarrow> Outcome \<Rightarrow> event list \<Rightarrow> bool" for kind where
  dl_finalized:
    "\<not> HasFinalizer kind topoFinalizer \<Longrightarrow> delete_path kind Done []"
| dl_connect:
    "HasFinalizer kind topoFinalizer \<Longrightarrow>
     delete_path kind (Requeue e) [Connect (Namespace kind) topoService (Some e)]"
| dl_delete_error:
    "HasFinalizer kind topoFinalizer \<Longrightarrow> \<not> is_status codes_NotFound err \<Longrightarrow>
     delete_path kind (Requeue (surfaced err))
       [Connect (Namespace kind) topoService None, RemoteDelete (Name kind) (Some err), ConnClose]"
| dl_deleted:
    "HasFinalizer kind topoFinalizer \<Longrightarrow> settled codes_NotFound r \<Longrightarrow>
     delete_path kind (outcome_of u)
       [Connect (Namespace kind) topoService None, RemoteDelete (Name kind) r,
        StoreUpdate (RemoveFinalizer kind topoFinalizer) u, ConnClose]"

inductive reconcile_path :: "go_error + Kind \<Rightarrow> Outcome \<Rightarrow> event list \<Rightarrow> bool" where
  rp_missing:
    "k8serrors_IsNotFound err \<Longrightarrow> reconcile_path (Inl err) Done []"
| rp_fetch_error:
    "\<not> k8serrors_IsNotFound err \<Longrightarrow> reconcile_path (Inl err) (Requeue err) []"
| rp_active:
    "DeletionTimestamp kind = None \<Longrightarrow> create_path kind out evs \<Longrightarrow>
     reconcile_path (Inr kind) out evs"
| rp_deleting:
    "DeletionTimestamp kind \<noteq> None \<Longrightarrow> delete_path kind out evs \<Longrightarrow>
     reconcile_path (Inr kind) out evs"

section \<open>Example resources and faulty collaborators\<close>

text \<open>The resource \<open>r1\<close> in its four states, a resource of the same name in another
  namespace, and reliable clusters in which one call always fails.\<close>

definition r1_finalized :: Kind where
  "r1_finalized = r1\<lparr>Finalizers := [''topo'']\<rparr>"

definition r1_deleting :: Kind where
  "r1_deleting = r1\<lparr>DeletionTimestamp := Some 1, Finalizers := [''topo'']\<rparr>"

definition r1_released :: Kind where
  "r1_released = r1\<lparr>DeletionTimestamp := Some 1\<rparr>"

definition r1_elsewhere :: Kind where
  "r1_elsewhere = r1\<lparr>Namespace := ''lab'', Spec_Attributes := []\<rparr>"

definition get_fails :: "cluster collaborators" where
  "get_fails = reliable\<lparr>topo_Get := (\<lambda>i w. (Some unavailable, w))\<rparr>"

definition create_fails :: "cluster collaborators" where
  "create_fails = reliable\<lparr>topo_Create := (\<lambda>obj w. (Some unavailable, w))\<rparr>"

definition delete_fails :: "cluster collaborators" where
  "delete_fails = reliable\<lparr>topo_Delete := (\<lambda>i w. (Some unavailable, w))\<rparr>"

definition store_down :: "cluster collaborators" where
  "store_down =
     reliable\<lparr>client_Get :=
       (\<lambda>n w. (Inl (APIStatusError StatusReasonServiceUnavailable ''unavailable''), w))\<rparr>"

definition empty_cluster :: cluster where
  "empty_cluster = \<lparr>store = Map.empty, registry = []\<rparr>"

definition connect_fails :: "cluster collaborators" where
  "connect_fails = reliable\<lparr>ConnectService := (\<lambda>ns svc w. (Some unavailable, w))\<rparr>"

text \<open>A cluster in which the owner of \<open>r1\<close> requests its deletion while the reconciler
  is connecting: the connection succeeds, and the store then holds \<open>r1\<close> with the
  deletion intent set.\<close>

definition intent_during_connect :: "cluster collaborators" where
  "intent_during_connect =
     reliable\<lparr>ConnectService :=
       (\<lambda>ns svc w. (None, w\<lparr>store := (store w)(r1_req \<mapsto> r1_deleting)\<rparr>))\<rparr>"

section \<open>Auxiliary facts\<close>

lemmas cluster_defs = reliable_def cluster_Get_def cluster_Update_def registry_Get_def
  registry_Create_def registry_Delete_def entries_def key_of_def cluster_of_def

lemmas example_defs = r1_def r1_req_def r1_finalized_def r1_deleting_def r1_released_def
  r1_elsewhere_def unavailable_def topoFinalizer_def topoService_def
  HasFinalizer_def AddFinalizer_def RemoveFinalizer_def CreateRequest_def

lemmas eval_defs = run_Reconcile_def Reconcile_def reconcileCreate_def reconcileDelete_def
  ensureFinalizer_def kindExists_def createKind_def deleteKind_def
  do_client_Get_def do_client_Update_def do_ConnectService_def do_conn_Close_def
  do_topo_Get_def do_topo_Create_def do_topo_Delete_def Let_def

lemmas fault_defs = get_fails_def create_fails_def delete_fails_def store_down_def
  empty_cluster_def is_status_def surfaced_def

lemmas class_defs = is_finalizer_mutation_def is_remote_mutation_def
  is_remote_create_def

text \<open>The two absorbed error kinds are exactly the gRPC codes of the same name.\<close>

lemma not_found_absorbed:
  "errors_IsNotFound (errors_FromStatus (c, m)) = (c = codes_NotFound)"
  by (cases c) simp_all

lemma already_exists_absorbed:
  "errors_IsAlreadyExists (errors_FromStatus (c, m)) = (c = codes_AlreadyExists)"
  by (cases c) simp_all

text \<open>Each helper makes one call; its result is a function of the answer.\<close>

lemma kindExists_eq:
  "kindExists c kind s =
     (case topo_Get c (Name kind) (world s) of
        (r, w1) \<Rightarrow>
          ((case r of None \<Rightarrow> (True, None)
            | Some err \<Rightarrow> if is_status codes_NotFound err then (False, None) else (False, Some (surfaced err))),
           \<lparr>world = w1, trace = trace s @ [RemoteGet (Name kind) r]\<rparr>))"
  by (auto simp: kindExists_def do_topo_Get_def is_status_def surfaced_def not_found_absorbed Let_def
      split: prod.splits option.splits go_error.splits)

lemma createKind_eq:
  "createKind c kind s =
     (case topo_Create c (CreateRequest kind) (world s) of
        (r, w1) \<Rightarrow>
          ((case r of None \<Rightarrow> None
            | Some err \<Rightarrow> if is_status codes_AlreadyExists err then None else Some (surfaced err)),
           \<lparr>world = w1, trace = trace s @ [RemoteCreate (CreateRequest kind) r]\<rparr>))"
  by (auto simp: createKind_def do_topo_Create_def is_status_def surfaced_def already_exists_absorbed Let_def
      split: prod.splits option.splits go_error.splits)

lemma deleteKind_eq:
  "deleteKind c kind s =
     (case topo_Delete c (Name kind) (world s) of
        (r, w1) \<Rightarrow>
          ((case r of None \<Rightarrow> None
            | Some err \<Rightarrow> if is_status codes_NotFound err then None else Some (surfaced err)),
           \<lparr>world = w1, trace = trace s @ [RemoteDelete (Name kind) r]\<rparr>))"
  by (auto simp: deleteKind_def do_topo_Delete_def is_status_def surfaced_def not_found_absorbed Let_def
      split: prod.splits option.splits go_error.splits)

lemma has_after_add: "HasFinalizer (AddFinalizer kind t) t"
  by (simp add: HasFinalizer_def AddFinalizer_def)

text \<open>Every run follows a path.\<close>

lemma reconcileCreate_finalized:
  assumes "HasFinalizer kind topoFinalizer"
  shows "\<exists>evs. trace (snd (reconcileCreate c kind s)) = trace s @ evs
           \<and> remote_create_path kind (fst (reconcileCreate c kind s)) evs"
proof -
  obtain rc w1 where rc: "ConnectService c (Namespace kind) topoService (world s) = (rc, w1)"
    by (cases "ConnectService c (Namespace kind) topoService (world s)")
  obtain rg w2 where rg: "topo_Get c (Name kind) w1 = (rg, w2)"
    by (cases "topo_Get c (Name kind) w1")
  obtain rr w3 where rr: "topo_Create c (CreateRequest kind) w2 = (rr, w3)"
    by (cases "topo_Create c (CreateRequest kind) w2")
  show ?thesis
  proof (cases rc)
    case (Some e)
    with assms rc show ?thesis
      by (simp add: reconcileCreate_def ensureFinalizer_def do_ConnectService_def rc_connect)
  next
    case None
    note conn = this
    show ?thesis
    proof (cases rg)
      case None
      with assms rc conn rg show ?thesis
        by (simp add: reconcileCreate_def ensureFinalizer_def do_ConnectService_def
            kindExists_eq do_conn_Close_def rc_exists)
    next
      case (Some err)
      show ?thesis
      proof (cases "is_status codes_NotFound err")
        case False
        with assms rc conn rg Some show ?thesis
          by (simp add: reconcileCreate_def ensureFinalizer_def do_ConnectService_def
              kindExists_eq do_conn_Close_def rc_get_error)
      next
        case True
        show ?thesis
        proof (cases "settled codes_AlreadyExists rr")
          case True
          with assms rc conn rg Some \<open>is_status codes_NotFound err\<close> rr
            rc_created[of err rr kind]
          show ?thesis
            by (auto simp: reconcileCreate_def ensureFinalizer_def do_ConnectService_def
                kindExists_eq createKind_eq do_conn_Close_def settled_def split: option.splits)
        next
          case False
          then obtain err' where "rr = Some err'" "\<not> is_status codes_AlreadyExists err'"
            by (auto simp: settled_def split: option.splits)
          with assms rc conn rg Some \<open>is_status codes_NotFound err\<close> rr
            rc_create_error[of err err' kind]
          show ?thesis
            by (simp add: reconcileCreate_def ensureFinalizer_def do_ConnectService_def
                kindExists_eq createKind_eq do_conn_Close_def)
        qed
      qed
    qed
  qed
qed

lemma reconcileCreate_unfinalized:
  assumes "\<not> HasFinalizer kind topoFinalizer"
    and "client_Update c (AddFinalizer kind topoFinalizer) (world s) = (r, w1)"
  shows "reconcileCreate c kind s =
           (let s1 = \<lparr>world = w1,
                      trace = trace s @ [StoreUpdate (AddFinalizer kind topoFinalizer) r]\<rparr>
            in case r of
                 Some err \<Rightarrow> (Requeue err, s1)
               | None \<Rightarrow> reconcileCreate c (AddFinalizer kind topoFinalizer) s1)"
  using assms
  by (simp add: reconcileCreate_def ensureFinalizer_def do_client_Update_def has_after_add
      Let_def split: option.splits)

lemma reconcileCreate_path:
  "\<exists>evs. trace (snd (reconcileCreate c kind s)) = trace s @ evs
         \<and> create_path kind (fst (reconcileCreate c kind s)) evs"
proof (cases "HasFinalizer kind topoFinalizer")
  case True
  with reconcileCreate_finalized[OF True, of c s] show ?thesis
    by (blast intro: cr_finalized)
next
  case False
  obtain r w1 where upd: "client_Update c (AddFinalizer kind topoFinalizer) (world s) = (r, w1)"
    by (cases "client_Update c (AddFinalizer kind topoFinalizer) (world s)")
  show ?thesis
  proof (cases r)
    case (Some err)
    with reconcileCreate_unfinalized[OF False upd] False show ?thesis
      by (simp add: cr_update_error)
  next
    case None
    let ?k = "AddFinalizer kind topoFinalizer"
    let ?s1 = "\<lparr>world = w1, trace = trace s @ [StoreUpdate ?k None]\<rparr>"
    from None reconcileCreate_unfinalized[OF False upd]
    have eq: "reconcileCreate c kind s = reconcileCreate c ?k ?s1"
      by simp
    from reconcileCreate_finalized[OF has_after_add, of c kind ?s1]
    obtain evs where "trace (snd (reconcileCreate c ?k ?s1)) = trace ?s1 @ evs"
      and "remote_create_path ?k (fst (reconcileCreate c ?k ?s1)) evs"
      by blast
    with eq False have "trace (snd (reconcileCreate c kind s)) = trace s @ (StoreUpdate ?k None # evs)"
      and "create_path kind (fst (reconcileCreate c kind s)) (StoreUpdate ?k None # evs)"
      by (simp_all add: cr_added)
    then show ?thesis by blast
  qed
qed

lemma reconcileDelete_path:
  "\<exists>evs. trace (snd (reconcileDelete c kind s)) = trace s @ evs
         \<and> delete_path kind (fst (reconcileDelete c kind s)) evs"
proof (cases "HasFinalizer kind topoFinalizer")
  case False
  then show ?thesis
    by (simp add: reconcileDelete_def dl_finalized)
next
  case True
  obtain rc w1 where rc: "ConnectService c (Namespace kind) topoService (world s) = (rc, w1)"
    by (cases "ConnectService c (Namespace kind) topoService (world s)")
  obtain rd w2 where rd: "topo_Delete c (Name kind) w1 = (rd, w2)"
    by (cases "topo_Delete c (Name kind) w1")
  obtain u w3 where u: "client_Update c (RemoveFinalizer kind topoFinalizer) w2 = (u, w3)"
    by (cases "client_Update c (RemoveFinalizer kind topoFinalizer) w2")
  show ?thesis
  proof (cases rc)
    case (Some e)
    with True rc show ?thesis
      by (simp add: reconcileDelete_def do_ConnectService_def dl_connect)
  next
    case None
    show ?thesis
    proof (cases "settled codes_NotFound rd")
      case False
      then obtain err where "rd = Some err" "\<not> is_status codes_NotFound err"
        by (auto simp: settled_def split: option.splits)
      with True rc None rd dl_delete_error[OF True, of err] show ?thesis
        by (simp add: reconcileDelete_def do_ConnectService_def deleteKind_eq do_conn_Close_def)
    next
      case settled: True
      with True rc None rd u dl_deleted[OF True settled, of u] show ?thesis
        by (auto simp: reconcileDelete_def do_ConnectService_def deleteKind_eq do_conn_Close_def
            do_client_Update_def settled_def outcome_of_def split: option.splits)
    qed
  qed
qed

lemma Reconcile_path:
  "\<exists>evs. trace (snd (Reconcile c request s))
           = trace s @ StoreGet request (fst (client_Get c request (world s))) # evs
         \<and> reconcile_path (fst (client_Get c request (world s))) (fst (Reconcile c request s)) evs"
proof -
  obtain g w1 where g: "client_Get c request (world s) = (g, w1)"
    by (cases "client_Get c request (world s)")
  let ?s1 = "\<lparr>world = w1, trace = trace s @ [StoreGet request g]\<rparr>"
  show ?thesis
  proof (cases g)
    case (Inl err)
    with g show ?thesis
      by (simp add: Reconcile_def do_client_Get_def rp_missing rp_fetch_error)
  next
    case (Inr kind)
    show ?thesis
    proof (cases "DeletionTimestamp kind = None")
      case True
      with g Inr have eq: "Reconcile c request s = reconcileCreate c kind ?s1"
        by (simp add: Reconcile_def do_client_Get_def)
      from reconcileCreate_path[of c kind ?s1] obtain evs
        where "trace (snd (reconcileCreate c kind ?s1)) = trace ?s1 @ evs"
          and "create_path kind (fst (reconcileCreate c kind ?s1)) evs"
        by blast
      with eq g Inr True show ?thesis
        by (simp add: rp_active)
    next
      case False
      with g Inr have eq: "Reconcile c request s = reconcileDelete c kind ?s1"
        by (auto simp: Reconcile_def do_client_Get_def)
      from reconcileDelete_path[of c kind ?s1] obtain evs
        where "trace (snd (reconcileDelete c kind ?s1)) = trace ?s1 @ evs"
          and "delete_path kind (fst (reconcileDelete c kind ?s1)) evs"
        by blast
      with eq g Inr False show ?thesis
        by (simp add: rp_deleting)
    qed
  qed
qed

lemma run_Reconcile_path:
  "\<exists>evs. fst (snd (run_Reconcile c request w))
           = StoreGet request (fst (client_Get c request w)) # evs
         \<and> reconcile_path (fst (client_Get c request w)) (fst (run_Reconcile c request w)) evs"
  using Reconcile_path[of c request "\<lparr>world = w, trace = []\<rparr>"]
  by (simp add: run_Reconcile_def split_beta)

text \<open>What holds on every path.\<close>

lemmas path_elims = reconcile_path.cases create_path.cases delete_path.cases remote_create_path.cases

lemma path_get_error:
  "reconcile_path g out evs \<Longrightarrow> RemoteGet i (Some err) \<in> set evs \<Longrightarrow>
   \<not> is_status codes_NotFound err \<Longrightarrow> out = Requeue (surfaced err)"
  by (auto elim!: path_elims)

lemma path_create_error:
  "reconcile_path g out evs \<Longrightarrow> RemoteCreate obj (Some err) \<in> set evs \<Longrightarrow>
   \<not> is_status codes_AlreadyExists err \<Longrightarrow> out = Requeue (surfaced err)"
  by (auto elim!: path_elims simp: settled_def)

lemma path_delete_error:
  "reconcile_path g out evs \<Longrightarrow> RemoteDelete i (Some err) \<in> set evs \<Longrightarrow>
   \<not> is_status codes_NotFound err \<Longrightarrow>
   out = Requeue (surfaced err) \<and> filter is_finalizer_mutation evs = []"
  by (auto elim!: path_elims simp: settled_def class_defs)

lemma path_single_mutations:
  "reconcile_path g out evs \<Longrightarrow>
   length (filter is_finalizer_mutation evs) \<le> 1 \<and> length (filter is_remote_mutation evs) \<le> 1"
  by (auto elim!: path_elims simp: class_defs)

lemma path_deleting:
  "reconcile_path (Inr kind) out evs \<Longrightarrow> DeletionTimestamp kind \<noteq> None \<Longrightarrow>
   filter is_remote_create evs = []
   \<and> (filter is_finalizer_mutation evs \<noteq> [] \<longrightarrow>
        list_ex (delete_settled (Name kind)) (takeWhile (\<lambda>ev. \<not> is_finalizer_mutation ev) evs))
   \<and> (\<forall>k r. StoreUpdate k r \<in> set evs \<longrightarrow> k = RemoveFinalizer kind topoFinalizer)"
  by (auto elim!: path_elims simp: class_defs delete_settled_def settled_def split: option.splits)

text \<open>\<^verbatim>\<open>reconcileDelete\<close> on a resource that carries the token, answer by answer.\<close>

lemma reconcileDelete_connect_error:
  assumes "HasFinalizer kind topoFinalizer"
    and "ConnectService c (Namespace kind) topoService (world s) = (Some e, w2)"
  shows "reconcileDelete c kind s =
           (Requeue e,
            \<lparr>world = w2, trace = trace s @ [Connect (Namespace kind) topoService (Some e)]\<rparr>)"
  using assms by (simp add: reconcileDelete_def do_ConnectService_def)

lemma reconcileDelete_delete_error:
  assumes "HasFinalizer kind topoFinalizer"
    and "ConnectService c (Namespace kind) topoService (world s) = (None, w2)"
    and "topo_Delete c (Name kind) w2 = (Some err, w3)"
    and "\<not> is_status codes_NotFound err"
  shows "reconcileDelete c kind s =
           (Requeue (surfaced err),
            \<lparr>world = conn_Close c w3,
             trace = trace s @ [Connect (Namespace kind) topoService None,
                                RemoteDelete (Name kind) (Some err), ConnClose]\<rparr>)"
  using assms
  by (simp add: reconcileDelete_def do_ConnectService_def deleteKind_eq do_conn_Close_def)

lemma deleteKind_settled:
  "topo_Delete c (Name kind) (world s) = (r, w3) \<Longrightarrow> settled codes_NotFound r \<Longrightarrow>
   deleteKind c kind s = (None, \<lparr>world = w3, trace = trace s @ [RemoteDelete (Name kind) r]\<rparr>)"
  by (cases r) (simp_all add: deleteKind_eq settled_def)

lemma reconcileDelete_deleted:
  assumes "HasFinalizer kind topoFinalizer"
    and "ConnectService c (Namespace kind) topoService (world s) = (None, w2)"
    and "topo_Delete c (Name kind) w2 = (r, w3)"
    and "settled codes_NotFound r"
    and "client_Update c (RemoveFinalizer kind topoFinalizer) w3 = (u, w4)"
  shows "reconcileDelete c kind s =
           (outcome_of u,
            \<lparr>world = conn_Close c w4,
             trace = trace s @ [Connect (Namespace kind) topoService None,
                                RemoteDelete (Name kind) r,
                                StoreUpdate (RemoveFinalizer kind topoFinalizer) u, ConnClose]\<rparr>)"
proof -
  let ?s1 = "\<lparr>world = w2, trace = trace s @ [Connect (Namespace kind) topoService None]\<rparr>"
  from assms(3,4) have d: "deleteKind c kind ?s1 =
      (None, \<lparr>world = w3, trace = trace ?s1 @ [RemoteDelete (Name kind) r]\<rparr>)"
    by (simp add: deleteKind_settled)
  from assms(1,2,5) d show ?thesis
    by (cases u)
      (simp_all add: reconcileDelete_def do_ConnectService_def do_client_Update_def
        do_conn_Close_def outcome_of_def)
qed

lemma Reconcile_deleting:
  "client_Get c request w = (Inr kind, w1) \<Longrightarrow> DeletionTimestamp kind \<noteq> None \<Longrightarrow>
   Reconcile c request \<lparr>world = w, trace = []\<rparr> =
     reconcileDelete c kind \<lparr>world = w1, trace = [StoreGet request (Inr kind)]\<rparr>"
  by (auto simp: Reconcile_def do_client_Get_def)

text \<open>The reliable cluster, on an active resource that carries the token.\<close>

lemma reliable_finalized_step:
  assumes "store w request = Some kind" and "DeletionTimestamp kind = None"
    and "HasFinalizer kind topoFinalizer"
  shows "fst (run_Reconcile reliable request w) = Done
         \<and> snd (snd (run_Reconcile reliable request w)) =
             (if entries (Name kind) (registry w) = []
              then w\<lparr>registry := registry w @ [CreateRequest kind]\<rparr> else w)"
  using assms
  by (simp add: run_Reconcile_def Reconcile_def reconcileCreate_def ensureFinalizer_def
      kindExists_eq createKind_eq do_client_Get_def do_ConnectService_def do_conn_Close_def
      reliable_def cluster_Get_def registry_Get_def registry_Create_def is_status_def
      CreateRequest_def)

lemma reliable_finalized_keeps:
  assumes "store w request = Some kind" and "DeletionTimestamp kind = None"
    and "HasFinalizer kind topoFinalizer"
    and "length (entries (Name kind) (registry w)) \<le> 1"
  shows "store (snd (snd (run_Reconcile reliable request w))) request = Some kind
         \<and> length (entries (Name kind) (registry (snd (snd (run_Reconcile reliable request w))))) = 1"
proof (cases "entries (Name kind) (registry w) = []")
  case True
  with reliable_finalized_step[OF assms(1-3)] assms(1) show ?thesis
    by (simp add: entries_def CreateRequest_def)
next
  case False
  then have "length (entries (Name kind) (registry w)) \<noteq> 0" by simp
  with assms(4) have "length (entries (Name kind) (registry w)) = 1" by linarith
  with reliable_finalized_step[OF assms(1-3)] assms(1) False show ?thesis
    by simp
qed

lemma reconcile_times_finalized:
  assumes "DeletionTimestamp kind = None" and "HasFinalizer kind topoFinalizer"
  shows "store w request = Some kind \<Longrightarrow> length (entries (Name kind) (registry w)) \<le> 1 \<Longrightarrow>
         fst (reconcile_times reliable request n w) = replicate n Done
         \<and> (0 < n \<longrightarrow>
              length (entries (Name kind) (registry (snd (reconcile_times reliable request n w)))) = 1)"
proof (induction n arbitrary: w)
  case 0
  then show ?case by simp
next
  case (Suc n)
  let ?w1 = "snd (snd (run_Reconcile reliable request w))"
  from reliable_finalized_step[OF Suc.prems(1) assms]
  have out: "fst (run_Reconcile reliable request w) = Done" by simp
  from reliable_finalized_keeps[OF Suc.prems(1) assms Suc.prems(2)]
  have st: "store ?w1 request = Some kind"
    and one: "length (entries (Name kind) (registry ?w1)) = 1"
    by simp_all
  from one have le: "length (entries (Name kind) (registry ?w1)) \<le> 1" by simp
  from Suc.IH[OF st le]
  have ih: "fst (reconcile_times reliable request n ?w1) = replicate n Done"
    and ih1: "0 < n \<longrightarrow>
       length (entries (Name kind) (registry (snd (reconcile_times reliable request n ?w1)))) = 1"
    by simp_all
  show ?case
  proof (cases n)
    case 0
    with out one show ?thesis by (simp add: split_beta)
  next
    case (Suc m)
    with out ih ih1 show ?thesis by (simp add: split_beta)
  qed
qed

text \<open>The reliable cluster, on a resource with deletion intent: the registry never
  gains an object.\<close>

lemma reliable_deleting_step:
  assumes "store w request = Some kind" and "DeletionTimestamp kind \<noteq> None"
  shows "(\<exists>k. store (snd (snd (run_Reconcile reliable request w))) request = Some k
              \<and> DeletionTimestamp k \<noteq> None)
         \<and> set (registry (snd (snd (run_Reconcile reliable request w)))) \<subseteq> set (registry w)"
proof -
  let ?s1 = "\<lparr>world = w, trace = [StoreGet request (Inr kind)]\<rparr>"
  from assms(1) have g: "client_Get reliable request w = (Inr kind, w)"
    by (simp add: reliable_def cluster_Get_def)
  have run: "snd (snd (run_Reconcile reliable request w)) = world (snd (reconcileDelete reliable kind ?s1))"
    by (simp add: run_Reconcile_def Reconcile_deleting[OF g assms(2)] split_beta)
  show ?thesis
  proof (cases "HasFinalizer kind topoFinalizer")
    case False
    with assms show ?thesis
      by (simp add: run reconcileDelete_def)
  next
    case True
    have c: "ConnectService reliable (Namespace kind) topoService (world ?s1) = (None, w)"
      by (simp add: reliable_def)
    obtain r w3 where del: "topo_Delete reliable (Name kind) w = (r, w3)"
      by (cases "topo_Delete reliable (Name kind) w")
    then have st: "settled codes_NotFound r"
      and w3s: "store w3 = store w" and w3r: "set (registry w3) \<subseteq> set (registry w)"
      by (auto simp: reliable_def registry_Delete_def settled_def is_status_def split: if_splits)
    obtain u w4 where upd: "client_Update reliable (RemoveFinalizer kind topoFinalizer) w3 = (u, w4)"
      by (cases "client_Update reliable (RemoveFinalizer kind topoFinalizer) w3")
    from upd assms w3s have w4s: "\<exists>k. store w4 request = Some k \<and> DeletionTimestamp k \<noteq> None"
      and w4r: "registry w4 = registry w3"
      by (auto simp: reliable_def cluster_Update_def RemoveFinalizer_def split: option.splits)
    have cl: "conn_Close reliable w4 = w4"
      by (simp add: reliable_def)
    from reconcileDelete_deleted[OF True c del st upd] w4s w4r w3r cl show ?thesis
      by (simp add: run)
  qed
qed

lemma reconcile_times_deleting:
  "store w request = Some kind \<Longrightarrow> DeletionTimestamp kind \<noteq> None \<Longrightarrow>
   set (registry (snd (reconcile_times reliable request n w))) \<subseteq> set (registry w)"
proof (induction n arbitrary: w kind)
  case 0
  then show ?case by simp
next
  case (Suc n)
  let ?w1 = "snd (snd (run_Reconcile reliable request w))"
  from reliable_deleting_step[OF Suc.prems] obtain k
    where k: "store ?w1 request = Some k" "DeletionTimestamp k \<noteq> None"
      and sub: "set (registry ?w1) \<subseteq> set (registry w)"
    by blast
  from Suc.IH[OF k] sub
  have "set (registry (snd (reconcile_times reliable request n ?w1))) \<subseteq> set (registry w)"
    by blast
  then show ?case
    by (simp add: split_beta)
qed

section \<open>The claims\<close>

text \<open>Claim C1, as stated, fails: on the active resource \<open>r1\<close> without the token, in a
  reliable cluster whose registry is empty, one invocation persists the added token and
  then, in the same invocation, checks the registry and creates the entry.\<close>

theorem reconcile_adds_finalizer_then_creates:
  "fst (run_Reconcile reliable r1_req (cluster_of r1 [])) = Done
   \<and> fst (snd (run_Reconcile reliable r1_req (cluster_of r1 []))) =
       [StoreGet r1_req (Inr r1),
        StoreUpdate r1_finalized None,
        Connect ''default'' ''onos-topo'' None,
        RemoteGet ''r1'' (Some (StatusError codes_NotFound ''not found'')),
        RemoteCreate (CreateRequest r1_finalized) None,
        ConnClose]"
  by (simp add: eval_defs cluster_defs example_defs)

text \<open>Claim C1, amended: every invocation makes at most one update of the resource
  (the only finalizer mutation that is persisted) and at most one mutating call to the
  registry. On an active resource without the token it persists the resource with the
  token added; when that update fails it returns \<open>Requeue\<close> with the error and makes no
  remote call, and when it succeeds it goes on, in the same invocation, as
  \<^verbatim>\<open>reconcileCreate\<close> does on the resource that carries the token.\<close>

theorem reconcile_single_mutations:
  "length (filter is_finalizer_mutation (fst (snd (run_Reconcile c request w)))) \<le> 1
   \<and> length (filter is_remote_mutation (fst (snd (run_Reconcile c request w)))) \<le> 1
   \<and> (\<forall>kind w1 r w2.
        client_Get c request w = (Inr kind, w1) \<and> DeletionTimestamp kind = None
        \<and> \<not> HasFinalizer kind topoFinalizer
        \<and> client_Update c (AddFinalizer kind topoFinalizer) w1 = (r, w2) \<longrightarrow>
        Reconcile c request \<lparr>world = w, trace = []\<rparr> =
          (let s2 = \<lparr>world = w2,
                     trace = [StoreGet request (Inr kind),
                              StoreUpdate (AddFinalizer kind topoFinalizer) r]\<rparr>
           in case r of
                Some err \<Rightarrow> (Requeue err, s2)
              | None \<Rightarrow> reconcileCreate c (AddFinalizer kind topoFinalizer) s2))"
proof -
  from run_Reconcile_path[of c request w] obtain evs
    where tr: "fst (snd (run_Reconcile c request w))
                 = StoreGet request (fst (client_Get c request w)) # evs"
      and p: "reconcile_path (fst (client_Get c request w)) (fst (run_Reconcile c request w)) evs"
    by blast
  have counts: "length (filter is_finalizer_mutation (fst (snd (run_Reconcile c request w)))) \<le> 1
     \<and> length (filter is_remote_mutation (fst (snd (run_Reconcile c request w)))) \<le> 1"
    using path_single_mutations[OF p]
    by (simp add: tr is_finalizer_mutation_def is_remote_mutation_def)
  have step: "Reconcile c request \<lparr>world = w, trace = []\<rparr> =
          (let s2 = \<lparr>world = w2,
                     trace = [StoreGet request (Inr kind),
                              StoreUpdate (AddFinalizer kind topoFinalizer) r]\<rparr>
           in case r of
                Some err \<Rightarrow> (Requeue err, s2)
              | None \<Rightarrow> reconcileCreate c (AddFinalizer kind topoFinalizer) s2)"
    if "client_Get c request w = (Inr kind, w1)" "DeletionTimestamp kind = None"
      "\<not> HasFinalizer kind topoFinalizer"
      "client_Update c (AddFinalizer kind topoFinalizer) w1 = (r, w2)"
    for kind w1 r w2
    using that
      reconcileCreate_unfinalized[of kind c "\<lparr>world = w1, trace = [StoreGet request (Inr kind)]\<rparr>" r w2]
    by (simp add: Reconcile_def do_client_Get_def)
  from counts step show ?thesis by blast
qed

text \<open>Witness for C1 (amended): the resource \<open>r1\<close> in a reliable cluster.\<close>

theorem reconcile_single_mutations_witness:
  "length (filter is_finalizer_mutation
      (fst (snd (run_Reconcile reliable r1_req (cluster_of r1 []))))) \<le> 1
   \<and> length (filter is_remote_mutation
      (fst (snd (run_Reconcile reliable r1_req (cluster_of r1 []))))) \<le> 1
   \<and> client_Get reliable r1_req (cluster_of r1 []) = (Inr r1, cluster_of r1 [])
   \<and> DeletionTimestamp r1 = None
   \<and> \<not> HasFinalizer r1 topoFinalizer
   \<and> client_Update reliable (AddFinalizer r1 topoFinalizer) (cluster_of r1 [])
       = (None, snd (cluster_Update r1_finalized (cluster_of r1 [])))
   \<and> Reconcile reliable r1_req \<lparr>world = cluster_of r1 [], trace = []\<rparr> =
       reconcileCreate reliable r1_finalized
         \<lparr>world = snd (cluster_Update r1_finalized (cluster_of r1 [])),
          trace = [StoreGet r1_req (Inr r1), StoreUpdate r1_finalized None]\<rparr>"
proof -
  let ?w = "cluster_of r1 []"
  have h: "client_Get reliable r1_req ?w = (Inr r1, ?w)
     \<and> DeletionTimestamp r1 = None
     \<and> \<not> HasFinalizer r1 topoFinalizer
     \<and> client_Update reliable (AddFinalizer r1 topoFinalizer) ?w
         = (None, snd (cluster_Update r1_finalized ?w))"
    by (simp add: cluster_defs example_defs)
  have a: "AddFinalizer r1 topoFinalizer = r1_finalized"
    by (simp add: example_defs)
  note t = reconcile_single_mutations[of reliable r1_req ?w]
  note once = t[THEN conjunct1]
  note single = t[THEN conjunct2, THEN conjunct1]
  note continues = t[THEN conjunct2, THEN conjunct2, rule_format, OF h]
  from continues have "Reconcile reliable r1_req \<lparr>world = ?w, trace = []\<rparr> =
       reconcileCreate reliable r1_finalized
         \<lparr>world = snd (cluster_Update r1_finalized ?w),
          trace = [StoreGet r1_req (Inr r1), StoreUpdate r1_finalized None]\<rparr>"
    by (simp add: a)
  with once single h show ?thesis
    by simp
qed

text \<open>Claim C2: on a resource with deletion intent and the token, the invocation
  connects and then always calls the remote delete of the resource's name. When the
  delete succeeds or answers not-found, the invocation next persists the fetched
  resource with the token removed, and its outcome is that of this update: the calls are
  exactly fetch, connect, delete, update, close. When the delete fails with any other
  error the calls are exactly fetch, connect, delete, close: no update, and the outcome is
  \<open>Requeue\<close> with the surfaced error. When the connection fails, nothing follows it.
  Hence an update is always preceded by a settled delete, the only resource ever
  persisted is the one with the token removed, and a failed delete leaves the finalizers
  as they are.\<close>

theorem delete_before_finalizer_removal:
  assumes "client_Get c request w = (Inr kind, w1)"
    and "DeletionTimestamp kind \<noteq> None"
    and "HasFinalizer kind topoFinalizer"
  shows "(\<forall>e w2. ConnectService c (Namespace kind) topoService w1 = (Some e, w2) \<longrightarrow>
            run_Reconcile c request w =
              (Requeue e,
               [StoreGet request (Inr kind), Connect (Namespace kind) topoService (Some e)],
               w2))
         \<and> (\<forall>w2 r w3 u w4.
              ConnectService c (Namespace kind) topoService w1 = (None, w2)
              \<and> topo_Delete c (Name kind) w2 = (r, w3)
              \<and> settled codes_NotFound r
              \<and> client_Update c (RemoveFinalizer kind topoFinalizer) w3 = (u, w4) \<longrightarrow>
              run_Reconcile c request w =
                (outcome_of u,
                 [StoreGet request (Inr kind), Connect (Namespace kind) topoService None,
                  RemoteDelete (Name kind) r,
                  StoreUpdate (RemoveFinalizer kind topoFinalizer) u, ConnClose],
                 conn_Close c w4))
         \<and> (\<forall>w2 err w3.
              ConnectService c (Namespace kind) topoService w1 = (None, w2)
              \<and> topo_Delete c (Name kind) w2 = (Some err, w3)
              \<and> \<not> is_status codes_NotFound err \<longrightarrow>
              run_Reconcile c request w =
                (Requeue (surfaced err),
                 [StoreGet request (Inr kind), Connect (Namespace kind) topoService None,
                  RemoteDelete (Name kind) (Some err), ConnClose],
                 conn_Close c w3))
         \<and> (filter is_finalizer_mutation (fst (snd (run_Reconcile c request w))) \<noteq> [] \<longrightarrow>
           list_ex (delete_settled (Name kind))
             (takeWhile (\<lambda>ev. \<not> is_finalizer_mutation ev) (fst (snd (run_Reconcile c request w)))))
         \<and> (\<forall>k r. StoreUpdate k r \<in> set (fst (snd (run_Reconcile c request w))) \<longrightarrow>
               k = RemoveFinalizer kind topoFinalizer)
         \<and> (\<forall>i err. RemoteDelete i (Some err) \<in> set (fst (snd (run_Reconcile c request w)))
               \<and> \<not> is_status codes_NotFound err \<longrightarrow>
               filter is_finalizer_mutation (fst (snd (run_Reconcile c request w))) = []
               \<and> fst (run_Reconcile c request w) = Requeue (surfaced err))"
proof -
  let ?s1 = "\<lparr>world = w1, trace = [StoreGet request (Inr kind)]\<rparr>"
  have run: "run_Reconcile c request w =
      (fst (reconcileDelete c kind ?s1), trace (snd (reconcileDelete c kind ?s1)),
       world (snd (reconcileDelete c kind ?s1)))"
    by (simp add: run_Reconcile_def Reconcile_deleting[OF assms(1,2)] split_beta)
  have a: "\<forall>e w2. ConnectService c (Namespace kind) topoService w1 = (Some e, w2) \<longrightarrow>
            run_Reconcile c request w =
              (Requeue e,
               [StoreGet request (Inr kind), Connect (Namespace kind) topoService (Some e)],
               w2)"
    by (simp add: run reconcileDelete_connect_error[OF assms(3), of c ?s1])
  have b: "\<forall>w2 r w3 u w4.
              ConnectService c (Namespace kind) topoService w1 = (None, w2)
              \<and> topo_Delete c (Name kind) w2 = (r, w3)
              \<and> settled codes_NotFound r
              \<and> client_Update c (RemoveFinalizer kind topoFinalizer) w3 = (u, w4) \<longrightarrow>
              run_Reconcile c request w =
                (outcome_of u,
                 [StoreGet request (Inr kind), Connect (Namespace kind) topoService None,
                  RemoteDelete (Name kind) r,
                  StoreUpdate (RemoveFinalizer kind topoFinalizer) u, ConnClose],
                 conn_Close c w4)"
    by (simp add: run reconcileDelete_deleted[OF assms(3), of c ?s1])
  have d: "\<forall>w2 err w3.
              ConnectService c (Namespace kind) topoService w1 = (None, w2)
              \<and> topo_Delete c (Name kind) w2 = (Some err, w3)
              \<and> \<not> is_status codes_NotFound err \<longrightarrow>
              run_Reconcile c request w =
                (Requeue (surfaced err),
                 [StoreGet request (Inr kind), Connect (Namespace kind) topoService None,
                  RemoteDelete (Name kind) (Some err), ConnClose],
                 conn_Close c w3)"
    by (simp add: run reconcileDelete_delete_error[OF assms(3), of c ?s1])
  from run_Reconcile_path[of c request w] assms obtain evs
    where tr: "fst (snd (run_Reconcile c request w)) = StoreGet request (Inr kind) # evs"
      and p: "reconcile_path (Inr kind) (fst (run_Reconcile c request w)) evs"
    by auto
  from path_deleting[OF p assms(2)] path_delete_error[OF p]
  have old: "(filter is_finalizer_mutation (fst (snd (run_Reconcile c request w))) \<noteq> [] \<longrightarrow>
           list_ex (delete_settled (Name kind))
             (takeWhile (\<lambda>ev. \<not> is_finalizer_mutation ev) (fst (snd (run_Reconcile c request w)))))
         \<and> (\<forall>k r. StoreUpdate k r \<in> set (fst (snd (run_Reconcile c request w))) \<longrightarrow>
               k = RemoveFinalizer kind topoFinalizer)
         \<and> (\<forall>i err. RemoteDelete i (Some err) \<in> set (fst (snd (run_Reconcile c request w)))
               \<and> \<not> is_status codes_NotFound err \<longrightarrow>
               filter is_finalizer_mutation (fst (snd (run_Reconcile c request w))) = []
               \<and> fst (run_Reconcile c request w) = Requeue (surfaced err))"
    by (auto simp: tr is_finalizer_mutation_def)
  show ?thesis
    by (rule conjI[OF a conjI[OF b conjI[OF d old]]])
qed

text \<open>Witness for C2: a cluster whose connection fails, a cluster whose remote delete fails,
  and a reliable one whose registry holds the entry.\<close>

theorem delete_before_finalizer_removal_witness:
  "client_Get connect_fails r1_req (cluster_of r1_deleting []) = (Inr r1_deleting, cluster_of r1_deleting [])
   \<and> DeletionTimestamp r1_deleting \<noteq> None
   \<and> HasFinalizer r1_deleting topoFinalizer
   \<and> ConnectService connect_fails (Namespace r1_deleting) topoService (cluster_of r1_deleting [])
        = (Some unavailable, cluster_of r1_deleting [])
   \<and> run_Reconcile connect_fails r1_req (cluster_of r1_deleting [])
        = (Requeue unavailable,
           [StoreGet r1_req (Inr r1_deleting),
            Connect (Namespace r1_deleting) topoService (Some unavailable)],
           cluster_of r1_deleting [])
   \<and> topo_Delete delete_fails (Name r1_deleting) (cluster_of r1_deleting [])
        = (Some unavailable, cluster_of r1_deleting [])
   \<and> \<not> is_status codes_NotFound unavailable
   \<and> run_Reconcile delete_fails r1_req (cluster_of r1_deleting [])
        = (Requeue (surfaced unavailable),
           [StoreGet r1_req (Inr r1_deleting),
            Connect (Namespace r1_deleting) topoService None,
            RemoteDelete (Name r1_deleting) (Some unavailable), ConnClose],
           cluster_of r1_deleting [])
   \<and> topo_Delete reliable (Name r1_deleting) (cluster_of r1_deleting [CreateRequest r1_deleting])
        = (None, cluster_of r1_deleting [])
   \<and> settled codes_NotFound None
   \<and> fst (client_Update reliable (RemoveFinalizer r1_deleting topoFinalizer)
            (cluster_of r1_deleting [])) = None
   \<and> fst (run_Reconcile reliable r1_req (cluster_of r1_deleting [CreateRequest r1_deleting]))
        = Done
   \<and> fst (snd (run_Reconcile reliable r1_req (cluster_of r1_deleting [CreateRequest r1_deleting])))
        = [StoreGet r1_req (Inr r1_deleting),
           Connect (Namespace r1_deleting) topoService None,
           RemoteDelete (Name r1_deleting) None,
           StoreUpdate (RemoveFinalizer r1_deleting topoFinalizer) None, ConnClose]
   \<and> RemoteDelete ''r1'' (Some unavailable)
        \<in> set (fst (snd (run_Reconcile delete_fails r1_req (cluster_of r1_deleting []))))
   \<and> filter is_finalizer_mutation
        (fst (snd (run_Reconcile delete_fails r1_req (cluster_of r1_deleting [])))) = []
   \<and> filter is_finalizer_mutation
        (fst (snd (run_Reconcile reliable r1_req (cluster_of r1_deleting [CreateRequest r1_deleting]))))
        \<noteq> []
   \<and> list_ex (delete_settled (Name r1_deleting))
        (takeWhile (\<lambda>ev. \<not> is_finalizer_mutation ev)
           (fst (snd (run_Reconcile reliable r1_req
              (cluster_of r1_deleting [CreateRequest r1_deleting])))))"
proof -
  let ?w = "cluster_of r1_deleting []"
  let ?v = "cluster_of r1_deleting [CreateRequest r1_deleting]"
  let ?u = "snd (client_Update reliable (RemoveFinalizer r1_deleting topoFinalizer) ?w)"
  have g0: "client_Get connect_fails r1_req ?w = (Inr r1_deleting, ?w)"
    and g1: "client_Get delete_fails r1_req ?w = (Inr r1_deleting, ?w)"
    and g2: "client_Get reliable r1_req ?v = (Inr r1_deleting, ?v)"
    and d: "DeletionTimestamp r1_deleting \<noteq> None"
    and f: "HasFinalizer r1_deleting topoFinalizer"
    by (simp_all add: cluster_defs example_defs fault_defs connect_fails_def)
  have c0: "ConnectService connect_fails (Namespace r1_deleting) topoService ?w
              = (Some unavailable, ?w)"
    and c1: "ConnectService delete_fails (Namespace r1_deleting) topoService ?w = (None, ?w)"
    and c2: "ConnectService reliable (Namespace r1_deleting) topoService ?v = (None, ?v)"
    by (simp_all add: cluster_defs fault_defs connect_fails_def)
  have r1: "topo_Delete delete_fails (Name r1_deleting) ?w = (Some unavailable, ?w)"
    and r2: "topo_Delete reliable (Name r1_deleting) ?v = (None, ?w)"
    and e2: "\<not> is_status codes_NotFound unavailable"
    and st: "settled codes_NotFound None"
    by (simp_all add: cluster_defs example_defs fault_defs settled_def)
  have u: "client_Update reliable (RemoveFinalizer r1_deleting topoFinalizer) ?w = (None, ?u)"
    by (simp add: cluster_defs example_defs)
  have e1: "RemoteDelete ''r1'' (Some unavailable)
        \<in> set (fst (snd (run_Reconcile delete_fails r1_req ?w)))"
    by (simp add: eval_defs cluster_defs example_defs fault_defs)
  note refused = delete_before_finalizer_removal[OF g0 d f, THEN conjunct1, rule_format, OF c0]
  note failed = delete_before_finalizer_removal[OF g1 d f, THEN conjunct2, THEN conjunct2,
      THEN conjunct1, rule_format, OF conjI[OF c1 conjI[OF r1 e2]]]
  note removed = delete_before_finalizer_removal[OF g2 d f, THEN conjunct2, THEN conjunct1,
      rule_format, OF conjI[OF c2 conjI[OF r2 conjI[OF st u]]]]
  have e3: "filter is_finalizer_mutation (fst (snd (run_Reconcile reliable r1_req ?v))) \<noteq> []"
    by (simp add: removed is_finalizer_mutation_def)
  note no_update = delete_before_finalizer_removal[OF g1 d f, THEN conjunct2, THEN conjunct2,
      THEN conjunct2, THEN conjunct2, THEN conjunct2, rule_format, OF conjI[OF e1 e2]]
  note ordered = delete_before_finalizer_removal[OF g2 d f, THEN conjunct2, THEN conjunct2,
      THEN conjunct2, THEN conjunct1, rule_format, OF e3]
  have cl: "conn_Close delete_fails ?w = ?w" "conn_Close reliable ?u = ?u"
    by (simp_all add: cluster_defs fault_defs)
  have u': "fst (client_Update reliable (RemoveFinalizer r1_deleting topoFinalizer) ?w) = None"
    by (simp add: cluster_defs example_defs)
  from g0 d f c0 r1 r2 e2 st u' e1 e3 refused failed removed no_update ordered cl show ?thesis
    by (simp add: outcome_of_def)
qed

text \<open>Claim C3: when the remote get fails, \<^verbatim>\<open>kindExists\<close> answers \<open>(False, None)\<close> for
  a not-found error and \<open>(False, Some e)\<close>, with \<open>e\<close> the surfaced error, for any other;
  it answers \<open>(False, None)\<close> only when the get failed with not-found; and an invocation
  in which a get failed with another error returns \<open>Requeue\<close> with the surfaced error.\<close>

theorem kindExists_classifies_errors:
  "(\<forall>err w1. topo_Get c (Name kind) (world s) = (Some err, w1) \<longrightarrow>
      fst (kindExists c kind s) =
        (if is_status codes_NotFound err then (False, None) else (False, Some (surfaced err))))
   \<and> (fst (kindExists c kind s) = (False, None) \<longrightarrow>
        (\<exists>err. fst (topo_Get c (Name kind) (world s)) = Some err \<and> is_status codes_NotFound err))
   \<and> (\<forall>i err. RemoteGet i (Some err) \<in> set (fst (snd (run_Reconcile c request w)))
        \<and> \<not> is_status codes_NotFound err \<longrightarrow>
        fst (run_Reconcile c request w) = Requeue (surfaced err))"
proof (intro conjI)
  show "\<forall>err w1. topo_Get c (Name kind) (world s) = (Some err, w1) \<longrightarrow>
      fst (kindExists c kind s) =
        (if is_status codes_NotFound err then (False, None) else (False, Some (surfaced err)))"
    by (simp add: kindExists_eq)
  show "fst (kindExists c kind s) = (False, None) \<longrightarrow>
        (\<exists>err. fst (topo_Get c (Name kind) (world s)) = Some err \<and> is_status codes_NotFound err)"
    by (simp add: kindExists_eq split_beta split: option.splits if_splits)
  from run_Reconcile_path[of c request w] obtain evs
    where tr: "fst (snd (run_Reconcile c request w))
                 = StoreGet request (fst (client_Get c request w)) # evs"
      and p: "reconcile_path (fst (client_Get c request w)) (fst (run_Reconcile c request w)) evs"
    by blast
  show "\<forall>i err. RemoteGet i (Some err) \<in> set (fst (snd (run_Reconcile c request w)))
        \<and> \<not> is_status codes_NotFound err \<longrightarrow>
        fst (run_Reconcile c request w) = Requeue (surfaced err)"
    using path_get_error[OF p] by (auto simp: tr)
qed

text \<open>Witness for C3: a cluster whose remote get fails, and a reliable one with an
  empty registry.\<close>

theorem kindExists_classifies_errors_witness:
  "topo_Get get_fails (Name r1_finalized) (cluster_of r1_finalized [])
      = (Some unavailable, cluster_of r1_finalized [])
   \<and> \<not> is_status codes_NotFound unavailable
   \<and> fst (kindExists get_fails r1_finalized \<lparr>world = cluster_of r1_finalized [], trace = []\<rparr>)
      = (False, Some (surfaced unavailable))
   \<and> RemoteGet ''r1'' (Some unavailable)
        \<in> set (fst (snd (run_Reconcile get_fails r1_req (cluster_of r1_finalized []))))
   \<and> fst (run_Reconcile get_fails r1_req (cluster_of r1_finalized []))
        = Requeue (surfaced unavailable)
   \<and> surfaced unavailable = TypedError errors_Unavailable ''connection refused''
   \<and> fst (kindExists reliable r1_finalized \<lparr>world = cluster_of r1_finalized [], trace = []\<rparr>)
      = (False, None)
   \<and> (\<exists>err. fst (topo_Get reliable (Name r1_finalized) (cluster_of r1_finalized [])) = Some err
          \<and> is_status codes_NotFound err)"
proof -
  let ?w = "cluster_of r1_finalized []"
  let ?s = "\<lparr>world = ?w, trace = []\<rparr>"
  have g: "topo_Get get_fails (Name r1_finalized) (world ?s) = (Some unavailable, ?w)"
    by (simp add: cluster_defs example_defs fault_defs)
  have e1: "RemoteGet ''r1'' (Some unavailable)
        \<in> set (fst (snd (run_Reconcile get_fails r1_req ?w)))"
    by (simp add: eval_defs cluster_defs example_defs fault_defs)
  have e2: "\<not> is_status codes_NotFound unavailable"
    and e3: "surfaced unavailable = TypedError errors_Unavailable ''connection refused''"
    by (simp_all add: example_defs fault_defs)
  have n: "fst (kindExists reliable r1_finalized ?s) = (False, None)"
    by (simp add: eval_defs cluster_defs example_defs)
  note t = kindExists_classifies_errors[of get_fails r1_finalized ?s r1_req ?w]
  note classified = t[THEN conjunct1, rule_format, OF g]
  note requeued = t[THEN conjunct2, THEN conjunct2, rule_format, OF conjI[OF e1 e2]]
  note absent = kindExists_classifies_errors[of reliable r1_finalized ?s r1_req ?w, THEN conjunct2, THEN conjunct1,
      rule_format, OF n]
  from g e1 e2 e3 n classified requeued absent show ?thesis
    by simp
qed

text \<open>Claim C4: when the remote create fails, \<^verbatim>\<open>createKind\<close> returns no error for an
  already-exists error and the surfaced error for any other; an invocation in which a
  create failed with another error returns \<open>Requeue\<close> with the surfaced error.\<close>

theorem createKind_classifies_errors:
  "(\<forall>err w1. topo_Create c (CreateRequest kind) (world s) = (Some err, w1) \<longrightarrow>
      fst (createKind c kind s) =
        (if is_status codes_AlreadyExists err then None else Some (surfaced err)))
   \<and> (\<forall>obj err. RemoteCreate obj (Some err) \<in> set (fst (snd (run_Reconcile c request w)))
        \<and> \<not> is_status codes_AlreadyExists err \<longrightarrow>
        fst (run_Reconcile c request w) = Requeue (surfaced err))"
proof (intro conjI)
  show "\<forall>err w1. topo_Create c (CreateRequest kind) (world s) = (Some err, w1) \<longrightarrow>
      fst (createKind c kind s) =
        (if is_status codes_AlreadyExists err then None else Some (surfaced err))"
    by (simp add: createKind_eq)
  from run_Reconcile_path[of c request w] obtain evs
    where tr: "fst (snd (run_Reconcile c request w))
                 = StoreGet request (fst (client_Get c request w)) # evs"
      and p: "reconcile_path (fst (client_Get c request w)) (fst (run_Reconcile c request w)) evs"
    by blast
  show "\<forall>obj err. RemoteCreate obj (Some err) \<in> set (fst (snd (run_Reconcile c request w)))
        \<and> \<not> is_status codes_AlreadyExists err \<longrightarrow>
        fst (run_Reconcile c request w) = Requeue (surfaced err)"
    using path_create_error[OF p] by (auto simp: tr)
qed

text \<open>Witness for C4: a cluster whose remote create fails, and a reliable one whose
  registry already holds the entry.\<close>

theorem createKind_classifies_errors_witness:
  "topo_Create create_fails (CreateRequest r1_finalized) (cluster_of r1_finalized [])
      = (Some unavailable, cluster_of r1_finalized [])
   \<and> \<not> is_status codes_AlreadyExists unavailable
   \<and> fst (createKind create_fails r1_finalized \<lparr>world = cluster_of r1_finalized [], trace = []\<rparr>)
      = Some (surfaced unavailable)
   \<and> RemoteCreate (CreateRequest r1_finalized) (Some unavailable)
        \<in> set (fst (snd (run_Reconcile create_fails r1_req (cluster_of r1_finalized []))))
   \<and> fst (run_Reconcile create_fails r1_req (cluster_of r1_finalized []))
        = Requeue (surfaced unavailable)
   \<and> surfaced unavailable = TypedError errors_Unavailable ''connection refused''
   \<and> topo_Create reliable (CreateRequest r1_finalized)
        (cluster_of r1_finalized [CreateRequest r1_finalized])
      = (Some (StatusError codes_AlreadyExists ''already exists''),
         cluster_of r1_finalized [CreateRequest r1_finalized])
   \<and> fst (createKind reliable r1_finalized
        \<lparr>world = cluster_of r1_finalized [CreateRequest r1_finalized], trace = []\<rparr>) = None"
proof -
  let ?w = "cluster_of r1_finalized []"
  let ?s = "\<lparr>world = ?w, trace = []\<rparr>"
  let ?w' = "cluster_of r1_finalized [CreateRequest r1_finalized]"
  let ?s' = "\<lparr>world = ?w', trace = []\<rparr>"
  have g: "topo_Create create_fails (CreateRequest r1_finalized) (world ?s) = (Some unavailable, ?w)"
    by (simp add: cluster_defs example_defs fault_defs)
  have g': "topo_Create reliable (CreateRequest r1_finalized) (world ?s')
      = (Some (StatusError codes_AlreadyExists ''already exists''), ?w')"
    by (simp add: cluster_defs example_defs)
  have e1: "RemoteCreate (CreateRequest r1_finalized) (Some unavailable)
        \<in> set (fst (snd (run_Reconcile create_fails r1_req ?w)))"
    by (simp add: eval_defs cluster_defs example_defs fault_defs)
  have e2: "\<not> is_status codes_AlreadyExists unavailable"
    and e3: "surfaced unavailable = TypedError errors_Unavailable ''connection refused''"
    and e4: "is_status codes_AlreadyExists (StatusError codes_AlreadyExists ''already exists'')"
    by (simp_all add: example_defs fault_defs)
  note t = createKind_classifies_errors[of create_fails r1_finalized ?s r1_req ?w]
  note classified = t[THEN conjunct1, rule_format, OF g]
  note requeued = t[THEN conjunct2, rule_format, OF conjI[OF e1 e2]]
  note absorbed = createKind_classifies_errors[of reliable r1_finalized ?s' r1_req ?w, THEN conjunct1, rule_format, OF g']
  from g g' e1 e2 e3 e4 classified requeued absorbed show ?thesis
    by simp
qed

text \<open>Claim C5: when the remote delete fails, \<^verbatim>\<open>deleteKind\<close> returns no error for a
  not-found error and the surfaced error for any other; an invocation in which a delete
  failed with another error returns \<open>Requeue\<close> with the surfaced error.\<close>

theorem deleteKind_classifies_errors:
  "(\<forall>err w1. topo_Delete c (Name kind) (world s) = (Some err, w1) \<longrightarrow>
      fst (deleteKind c kind s) =
        (if is_status codes_NotFound err then None else Some (surfaced err)))
   \<and> (\<forall>i err. RemoteDelete i (Some err) \<in> set (fst (snd (run_Reconcile c request w)))
        \<and> \<not> is_status codes_NotFound err \<longrightarrow>
        fst (run_Reconcile c request w) = Requeue (surfaced err))"
proof (intro conjI)
  show "\<forall>err w1. topo_Delete c (Name kind) (world s) = (Some err, w1) \<longrightarrow>
      fst (deleteKind c kind s) =
        (if is_status codes_NotFound err then None else Some (surfaced err))"
    by (simp add: deleteKind_eq)
  from run_Reconcile_path[of c request w] obtain evs
    where tr: "fst (snd (run_Reconcile c request w))
                 = StoreGet request (fst (client_Get c request w)) # evs"
      and p: "reconcile_path (fst (client_Get c request w)) (fst (run_Reconcile c request w)) evs"
    by blast
  show "\<forall>i err. RemoteDelete i (Some err) \<in> set (fst (snd (run_Reconcile c request w)))
        \<and> \<not> is_status codes_NotFound err \<longrightarrow>
        fst (run_Reconcile c request w) = Requeue (surfaced err)"
    using path_delete_error[OF p] by (auto simp: tr)
qed

text \<open>Witness for C5: a cluster whose remote delete fails, and a reliable one with an
  empty registry.\<close>

theorem deleteKind_classifies_errors_witness:
  "topo_Delete delete_fails (Name r1_deleting) (cluster_of r1_deleting [])
      = (Some unavailable, cluster_of r1_deleting [])
   \<and> \<not> is_status codes_NotFound unavailable
   \<and> fst (deleteKind delete_fails r1_deleting \<lparr>world = cluster_of r1_deleting [], trace = []\<rparr>)
      = Some (surfaced unavailable)
   \<and> RemoteDelete ''r1'' (Some unavailable)
        \<in> set (fst (snd (run_Reconcile delete_fails r1_req (cluster_of r1_deleting []))))
   \<and> fst (run_Reconcile delete_fails r1_req (cluster_of r1_deleting []))
        = Requeue (surfaced unavailable)
   \<and> surfaced unavailable = TypedError errors_Unavailable ''connection refused''
   \<and> topo_Delete reliable (Name r1_deleting) (cluster_of r1_deleting [])
      = (Some (StatusError codes_NotFound ''not found''), cluster_of r1_deleting [])
   \<and> fst (deleteKind reliable r1_deleting \<lparr>world = cluster_of r1_deleting [], trace = []\<rparr>)
      = None"
proof -
  let ?w = "cluster_of r1_deleting []"
  let ?s = "\<lparr>world = ?w, trace = []\<rparr>"
  have g: "topo_Delete delete_fails (Name r1_deleting) (world ?s) = (Some unavailable, ?w)"
    by (simp add: cluster_defs example_defs fault_defs)
  have g': "topo_Delete reliable (Name r1_deleting) (world ?s)
      = (Some (StatusError codes_NotFound ''not found''), ?w)"
    by (simp add: cluster_defs example_defs)
  have e1: "RemoteDelete ''r1'' (Some unavailable)
        \<in> set (fst (snd (run_Reconcile delete_fails r1_req ?w)))"
    by (simp add: eval_defs cluster_defs example_defs fault_defs)
  have e2: "\<not> is_status codes_NotFound unavailable"
    and e3: "surfaced unavailable = TypedError errors_Unavailable ''connection refused''"
    and e4: "is_status codes_NotFound (StatusError codes_NotFound ''not found'')"
    by (simp_all add: example_defs fault_defs)
  note t = deleteKind_classifies_errors[of delete_fails r1_deleting ?s r1_req ?w]
  note classified = t[THEN conjunct1, rule_format, OF g]
  note requeued = t[THEN conjunct2, rule_format, OF conjI[OF e1 e2]]
  note absorbed = deleteKind_classifies_errors[of reliable r1_deleting ?s r1_req ?w, THEN conjunct1, rule_format, OF g']
  from g g' e1 e2 e3 e4 classified requeued absorbed show ?thesis
    by simp
qed

text \<open>Claim C6, as stated, fails: an invocation reads the resource once, at its
  start. When the deletion intent is set after that fetch (here during the connection),
  the invocation still runs the create branch: it finds the entry absent and creates
  it, while the store already holds the intent.\<close>

theorem in_flight_reconcile_creates_after_intent:
  "DeletionTimestamp r1_finalized = None
   \<and> store (snd (ConnectService intent_during_connect ''default'' ''onos-topo''
        (cluster_of r1_finalized []))) r1_req = Some r1_deleting
   \<and> DeletionTimestamp r1_deleting \<noteq> None
   \<and> fst (snd (run_Reconcile intent_during_connect r1_req (cluster_of r1_finalized []))) =
       [StoreGet r1_req (Inr r1_finalized),
        Connect ''default'' ''onos-topo'' None,
        RemoteGet ''r1'' (Some (StatusError codes_NotFound ''not found'')),
        RemoteCreate (CreateRequest r1_finalized) None,
        ConnClose]
   \<and> store (snd (snd (run_Reconcile intent_during_connect r1_req (cluster_of r1_finalized []))))
        r1_req = Some r1_deleting
   \<and> registry (snd (snd (run_Reconcile intent_during_connect r1_req (cluster_of r1_finalized []))))
        = [CreateRequest r1_finalized]"
  by (simp add: eval_defs cluster_defs example_defs intent_during_connect_def)

text \<open>Claim C6, amended: every invocation whose own fetch shows the deletion intent
  continues as \<^verbatim>\<open>reconcileDelete\<close> and nothing else, and makes no remote create,
  whatever the collaborators answer. So in a reliable cluster, where nothing else writes
  the registry, any number of invocations that start after the store holds the intent
  leave every identifier that was absent from the registry absent.\<close>

theorem deleting_never_creates:
  "(\<forall>kind w1. client_Get c request w = (Inr kind, w1) \<and> DeletionTimestamp kind \<noteq> None \<longrightarrow>
      Reconcile c request \<lparr>world = w, trace = []\<rparr> =
        reconcileDelete c kind \<lparr>world = w1, trace = [StoreGet request (Inr kind)]\<rparr>
      \<and> filter is_remote_create (fst (snd (run_Reconcile c request w))) = [])
   \<and> (\<forall>kind. store v request = Some kind \<and> DeletionTimestamp kind \<noteq> None
         \<and> entries i (registry v) = [] \<longrightarrow>
         entries i (registry (snd (reconcile_times reliable request N v))) = [])"
proof (intro conjI allI impI)
  fix kind w1
  assume h: "client_Get c request w = (Inr kind, w1) \<and> DeletionTimestamp kind \<noteq> None"
  then have g: "client_Get c request w = (Inr kind, w1)" and d: "DeletionTimestamp kind \<noteq> None"
    by simp_all
  from Reconcile_deleting[OF g d]
  show "Reconcile c request \<lparr>world = w, trace = []\<rparr> =
        reconcileDelete c kind \<lparr>world = w1, trace = [StoreGet request (Inr kind)]\<rparr>" .
  from run_Reconcile_path[of c request w] g obtain evs
    where tr: "fst (snd (run_Reconcile c request w)) = StoreGet request (Inr kind) # evs"
      and p: "reconcile_path (Inr kind) (fst (run_Reconcile c request w)) evs"
    by auto
  from path_deleting[OF p d]
  show "filter is_remote_create (fst (snd (run_Reconcile c request w))) = []"
    by (simp add: tr is_remote_create_def)
next
  fix kind
  assume h: "store v request = Some kind \<and> DeletionTimestamp kind \<noteq> None
         \<and> entries i (registry v) = []"
  then have s: "store v request = Some kind" and d: "DeletionTimestamp kind \<noteq> None"
    and e: "entries i (registry v) = []"
    by simp_all
  from reconcile_times_deleting[OF s d, of N] e
  show "entries i (registry (snd (reconcile_times reliable request N v))) = []"
    by (auto simp: entries_def filter_empty_conv)
qed

text \<open>Witness for C6 (amended): the deleting resource in a reliable cluster, with and
  without its entry in the registry.\<close>

theorem deleting_never_creates_witness:
  "client_Get reliable r1_req (cluster_of r1_deleting [CreateRequest r1_deleting])
     = (Inr r1_deleting, cluster_of r1_deleting [CreateRequest r1_deleting])
   \<and> DeletionTimestamp r1_deleting \<noteq> None
   \<and> Reconcile reliable r1_req
        \<lparr>world = cluster_of r1_deleting [CreateRequest r1_deleting], trace = []\<rparr>
      = reconcileDelete reliable r1_deleting
          \<lparr>world = cluster_of r1_deleting [CreateRequest r1_deleting],
           trace = [StoreGet r1_req (Inr r1_deleting)]\<rparr>
   \<and> filter is_remote_create
        (fst (snd (run_Reconcile reliable r1_req
           (cluster_of r1_deleting [CreateRequest r1_deleting])))) = []
   \<and> store (cluster_of r1_deleting []) r1_req = Some r1_deleting
   \<and> entries ''r1'' (registry (cluster_of r1_deleting [])) = []
   \<and> entries ''r1'' (registry (snd (reconcile_times reliable r1_req 2 (cluster_of r1_deleting []))))
        = []"
proof -
  have g: "client_Get reliable r1_req (cluster_of r1_deleting [CreateRequest r1_deleting])
     = (Inr r1_deleting, cluster_of r1_deleting [CreateRequest r1_deleting])"
    and d: "DeletionTimestamp r1_deleting \<noteq> None"
    and s: "store (cluster_of r1_deleting []) r1_req = Some r1_deleting"
    and e: "entries ''r1'' (registry (cluster_of r1_deleting [])) = []"
    by (simp_all add: cluster_defs example_defs)
  note t = deleting_never_creates[of reliable r1_req "cluster_of r1_deleting [CreateRequest r1_deleting]"
      "cluster_of r1_deleting []" "''r1''" 2]
  note snapshot = t[THEN conjunct1, rule_format, OF conjI[OF g d]]
  note absent = t[THEN conjunct2, rule_format, OF conjI[OF s conjI[OF d e]]]
  from g d s e snapshot absent show ?thesis
    by simp
qed

text \<open>Claim C7: when the fetch fails, the fetch is the only call of the invocation
  (no remote call, no update); the outcome is \<open>Done\<close> for a not-found error and \<open>Requeue\<close>
  with the error for any other.\<close>

theorem missing_resource_noop:
  "client_Get c request w = (Inl err, w1) \<Longrightarrow>
   run_Reconcile c request w =
     ((if k8serrors_IsNotFound err then Done else Requeue err), [StoreGet request (Inl err)], w1)"
  by (simp add: run_Reconcile_def Reconcile_def do_client_Get_def)

text \<open>Witness for C7: an empty store, and a store that is down.\<close>

theorem missing_resource_noop_witness:
  "client_Get reliable r1_req empty_cluster
     = (Inl (APIStatusError StatusReasonNotFound ''not found''), empty_cluster)
   \<and> run_Reconcile reliable r1_req empty_cluster
     = (Done, [StoreGet r1_req (Inl (APIStatusError StatusReasonNotFound ''not found''))],
        empty_cluster)
   \<and> client_Get store_down r1_req empty_cluster
     = (Inl (APIStatusError StatusReasonServiceUnavailable ''unavailable''), empty_cluster)
   \<and> run_Reconcile store_down r1_req empty_cluster
     = (Requeue (APIStatusError StatusReasonServiceUnavailable ''unavailable''),
        [StoreGet r1_req (Inl (APIStatusError StatusReasonServiceUnavailable ''unavailable''))],
        empty_cluster)"
proof -
  have g: "client_Get reliable r1_req empty_cluster
     = (Inl (APIStatusError StatusReasonNotFound ''not found''), empty_cluster)"
    and g': "client_Get store_down r1_req empty_cluster
     = (Inl (APIStatusError StatusReasonServiceUnavailable ''unavailable''), empty_cluster)"
    by (simp_all add: cluster_defs fault_defs)
  from missing_resource_noop[OF g] missing_resource_noop[OF g'] g g' show ?thesis
    by simp
qed

text \<open>Claim C8: on a resource with deletion intent and without the token, the
  invocation returns \<open>Done\<close> and its fetch is its only call: no remote call, no update,
  and the world is as the fetch left it.\<close>

theorem released_resource_noop:
  "client_Get c request w = (Inr kind, w1) \<Longrightarrow> DeletionTimestamp kind \<noteq> None \<Longrightarrow>
   \<not> HasFinalizer kind topoFinalizer \<Longrightarrow>
   run_Reconcile c request w = (Done, [StoreGet request (Inr kind)], w1)"
  by (auto simp: run_Reconcile_def Reconcile_def do_client_Get_def reconcileDelete_def)

text \<open>Witness for C8: the released resource in a reliable cluster.\<close>

theorem released_resource_noop_witness:
  "client_Get reliable r1_req (cluster_of r1_released [CreateRequest r1_released])
     = (Inr r1_released, cluster_of r1_released [CreateRequest r1_released])
   \<and> DeletionTimestamp r1_released \<noteq> None
   \<and> \<not> HasFinalizer r1_released topoFinalizer
   \<and> run_Reconcile reliable r1_req (cluster_of r1_released [CreateRequest r1_released])
     = (Done, [StoreGet r1_req (Inr r1_released)],
        cluster_of r1_released [CreateRequest r1_released])"
proof -
  have g: "client_Get reliable r1_req (cluster_of r1_released [CreateRequest r1_released])
     = (Inr r1_released, cluster_of r1_released [CreateRequest r1_released])"
    and d: "DeletionTimestamp r1_released \<noteq> None"
    and f: "\<not> HasFinalizer r1_released topoFinalizer"
    by (simp_all add: cluster_defs example_defs)
  from released_resource_noop[OF g d f] g d f show ?thesis
    by simp
qed

text \<open>Claim C9: in a reliable cluster (no remote errors, and nothing else touching
  the resource between the calls), \<open>N \<ge> 1\<close> invocations on an active resource that
  carries the token all return \<open>Done\<close>, and the registry, which held at most one entry
  under the resource's name, holds exactly one afterwards.\<close>

theorem repeated_reconcile_one_entry:
  assumes "store w request = Some kind" and "DeletionTimestamp kind = None"
    and "HasFinalizer kind topoFinalizer"
    and "length (entries (Name kind) (registry w)) \<le> 1"
    and "1 \<le> N"
  shows "fst (reconcile_times reliable request N w) = replicate N Done
         \<and> length (entries (Name kind) (registry (snd (reconcile_times reliable request N w)))) = 1"
  using reconcile_times_finalized[OF assms(2,3,1,4), of N] assms(5) by simp

text \<open>Witness for C9: three invocations on the finalized resource, registry empty at
  the start.\<close>

theorem repeated_reconcile_one_entry_witness:
  "store (cluster_of r1_finalized []) r1_req = Some r1_finalized
   \<and> DeletionTimestamp r1_finalized = None
   \<and> HasFinalizer r1_finalized topoFinalizer
   \<and> length (entries (Name r1_finalized) (registry (cluster_of r1_finalized []))) \<le> 1
   \<and> (1::nat) \<le> 3
   \<and> fst (reconcile_times reliable r1_req 3 (cluster_of r1_finalized [])) = [Done, Done, Done]
   \<and> length (entries ''r1''
        (registry (snd (reconcile_times reliable r1_req 3 (cluster_of r1_finalized []))))) = 1"
proof -
  have h: "store (cluster_of r1_finalized []) r1_req = Some r1_finalized"
    "DeletionTimestamp r1_finalized = None"
    "HasFinalizer r1_finalized topoFinalizer"
    "length (entries (Name r1_finalized) (registry (cluster_of r1_finalized []))) \<le> 1"
    "(1::nat) \<le> 3"
    by (simp_all add: cluster_defs example_defs)
  have n: "Name r1_finalized = ''r1''" by (simp add: example_defs)
  from repeated_reconcile_one_entry[OF h] h n show ?thesis
    by (simp add: numeral_3_eq_3)
qed

text \<open>Claim C10: the remote get and the remote delete are keyed by the resource's
  name, and the object of the remote create has the name as its identifier; the
  namespace is no part of the key, so for two resources of one name the existence check
  and the delete are the same calls with the same results and the created objects have
  the same identifier.\<close>

theorem remote_key_is_name:
  "Name k1 = Name k2 \<Longrightarrow>
   kindExists c k1 s = kindExists c k2 s
   \<and> deleteKind c k1 s = deleteKind c k2 s
   \<and> ID (CreateRequest k1) = ID (CreateRequest k2)
   \<and> trace (snd (kindExists c k1 s))
        = trace s @ [RemoteGet (Name k1) (fst (topo_Get c (Name k1) (world s)))]
   \<and> trace (snd (createKind c k1 s))
        = trace s @ [RemoteCreate (CreateRequest k1) (fst (topo_Create c (CreateRequest k1) (world s)))]
   \<and> ID (CreateRequest k1) = Name k1
   \<and> trace (snd (deleteKind c k1 s))
        = trace s @ [RemoteDelete (Name k1) (fst (topo_Delete c (Name k1) (world s)))]"
  by (simp add: kindExists_eq createKind_eq deleteKind_eq CreateRequest_def split_beta)

text \<open>Witness for C10: two resources named \<open>r1\<close> in different namespaces; the entry
  created for the first is the one found for the second.\<close>

theorem remote_key_is_name_witness:
  "Name r1_finalized = Name r1_elsewhere
   \<and> Namespace r1_finalized \<noteq> Namespace r1_elsewhere
   \<and> kindExists reliable r1_finalized \<lparr>world = cluster_of r1_finalized [CreateRequest r1_finalized], trace = []\<rparr>
      = kindExists reliable r1_elsewhere \<lparr>world = cluster_of r1_finalized [CreateRequest r1_finalized], trace = []\<rparr>
   \<and> fst (kindExists reliable r1_elsewhere
        \<lparr>world = cluster_of r1_finalized [CreateRequest r1_finalized], trace = []\<rparr>) = (True, None)
   \<and> ID (CreateRequest r1_finalized) = ID (CreateRequest r1_elsewhere)
   \<and> ID (CreateRequest r1_elsewhere) = ''r1''"
proof -
  let ?s = "\<lparr>world = cluster_of r1_finalized [CreateRequest r1_finalized], trace = []\<rparr>"
  have n: "Name r1_finalized = Name r1_elsewhere"
    and ns: "Namespace r1_finalized \<noteq> Namespace r1_elsewhere"
    by (simp_all add: example_defs)
  have e: "fst (kindExists reliable r1_elsewhere ?s) = (True, None)"
    "ID (CreateRequest r1_elsewhere) = ''r1''"
    by (simp_all add: eval_defs cluster_defs example_defs)
  from remote_key_is_name[OF n, of reliable ?s] n ns e show ?thesis
    by simp
qed

end
